theory Spec2Isabelle
  imports Main
begin

section \<open>JavaScript strings\<close>

text \<open>
  A JavaScript string is a sequence of UTF-16 code units; the regular expressions of the
  server carry no \<^verbatim>\<open>u\<close> flag, so they too work on code units. A code unit is a
  natural number here. \<open>str\<close> turns an ASCII literal into its code units.
\<close>

type_synonym jstring = "nat list"

definition str :: "string \<Rightarrow> jstring" where
  "str s = map of_char s"

text \<open>
  The characters that \<^verbatim>\<open>\s\<close> matches and that \<^verbatim>\<open>trim()\<close> strips: TAB, LF, VT,
  FF, CR, SP, NBSP, U+1680, U+2000 to U+200A, U+2028, U+2029, U+202F, U+205F, U+3000 and
  U+FEFF.
\<close>

definition isWhiteSpace :: "nat \<Rightarrow> bool" where
  "isWhiteSpace c =
     (c = 9 \<or> c = 10 \<or> c = 11 \<or> c = 12 \<or> c = 13 \<or> c = 32 \<or> c = 160 \<or> c = 5760
      \<or> (8192 \<le> c \<and> c \<le> 8202) \<or> c = 8232 \<or> c = 8233 \<or> c = 8239 \<or> c = 8287
      \<or> c = 12288 \<or> c = 65279)"

definition trim :: "jstring \<Rightarrow> jstring" where
  "trim s = rev (dropWhile isWhiteSpace (rev (dropWhile isWhiteSpace s)))"

text \<open>
  \<^verbatim>\<open>toLowerCase()\<close> is a primitive of the runtime. On a string of ASCII code units it
  maps \<^verbatim>\<open>A-Z\<close> to \<^verbatim>\<open>a-z\<close> and leaves the rest alone. What it does to a string that
  holds a code unit beyond ASCII (the Unicode case mapping, which may change the length
  and depends on context) is the parameter \<open>uni\<close>, about which nothing is assumed.
\<close>

definition asciiLower :: "nat \<Rightarrow> nat" where
  "asciiLower c = (if 65 \<le> c \<and> c \<le> 90 then c + 32 else c)"

definition toLowerCase :: "(jstring \<Rightarrow> jstring) \<Rightarrow> jstring \<Rightarrow> jstring" where
  "toLowerCase uni s = (if list_all (\<lambda>c. c < 128) s then map asciiLower s else uni s)"

text \<open>\<^verbatim>\<open>s.replace(/\s+/g, r)\<close>: every maximal run of white space becomes \<open>r\<close>.\<close>

function replaceWhitespaceRuns :: "jstring \<Rightarrow> jstring \<Rightarrow> jstring" where
  "replaceWhitespaceRuns r [] = []"
| "replaceWhitespaceRuns r (c # cs) =
     (if isWhiteSpace c then r @ replaceWhitespaceRuns r (dropWhile isWhiteSpace cs)
      else c # replaceWhitespaceRuns r cs)"
  by pat_completeness auto
termination
  by (relation "measure (\<lambda>(r, s). length s)")
     (auto simp: le_imp_less_Suc length_dropWhile_le)

section \<open>Genre slug normalizer\<close>

text \<open>The character class \<^verbatim>\<open>[a-z0-9-]\<close>.\<close>

definition isSlugChar :: "nat \<Rightarrow> bool" where
  "isSlugChar c = ((97 \<le> c \<and> c \<le> 122) \<or> (48 \<le> c \<and> c \<le> 57) \<or> c = 45)"

text \<open>
  \<^verbatim>\<open>
  function formatGenreSlug(genre) {
    return genre.toLowerCase().trim().replace(/\s+/g, '-').replace(/[^a-z0-9-]/g, '');
  }
  \<close>
\<close>

definition formatGenreSlug :: "(jstring \<Rightarrow> jstring) \<Rightarrow> jstring \<Rightarrow> jstring" where
  "formatGenreSlug uni genre =
     filter isSlugChar (replaceWhitespaceRuns (str ''-'') (trim (toLowerCase uni genre)))"

section \<open>More string primitives\<close>

text \<open>\<^verbatim>\<open>s.startsWith(t)\<close>, \<^verbatim>\<open>s.indexOf(t)\<close> (\<open>None\<close> for -1) and \<^verbatim>\<open>s.includes(t)\<close>.\<close>

definition startsWith :: "jstring \<Rightarrow> jstring \<Rightarrow> bool" where
  "startsWith s t = (take (length t) s = t)"

fun indexOf :: "jstring \<Rightarrow> jstring \<Rightarrow> nat option" where
  "indexOf [] t = (if t = [] then Some 0 else None)"
| "indexOf (c # cs) t =
     (if startsWith (c # cs) t then Some 0 else map_option Suc (indexOf cs t))"

definition jsIncludes :: "jstring \<Rightarrow> jstring \<Rightarrow> bool" where
  "jsIncludes s t = (indexOf s t \<noteq> None)"

text \<open>\<^verbatim>\<open>a || b\<close> on strings: the empty string (like \<^verbatim>\<open>undefined\<close>) is falsy.\<close>

definition jsOr :: "jstring \<Rightarrow> jstring \<Rightarrow> jstring" where
  "jsOr a b = (if a \<noteq> [] then a else b)"

section \<open>Parsed documents\<close>

text \<open>
  Both tiers work on a parsed HTML document: the browser's DOM for the Playwright tier,
  the cheerio tree for the ZenRows tier. A node is a text node or an element with its
  (lower-case) tag name, its attributes and its children. An element is handed around
  together with its chain of ancestors, nearest first, which is what \<^verbatim>\<open>closest\<close> walks.
\<close>

datatype node =
    TextNode jstring
  | Element (tagName: jstring) (attributes: "(jstring \<times> jstring) list") (childNodes: "node list")

type_synonym located = "node \<times> node list"

fun textContent :: "node \<Rightarrow> jstring" where
  "textContent (TextNode t) = t"
| "textContent (Element t a cs) = concat (map textContent cs)"

fun getAttribute :: "jstring \<Rightarrow> node \<Rightarrow> jstring option" where
  "getAttribute name (TextNode t) = None"
| "getAttribute name (Element t a cs) = map_of a name"

text \<open>The element itself and the elements below it, in document order.\<close>

fun locate :: "node list \<Rightarrow> node \<Rightarrow> located list" where
  "locate anc (TextNode t) = []"
| "locate anc (Element t a cs) =
     (Element t a cs, anc) # concat (map (locate (Element t a cs # anc)) cs)"

text \<open>\<^verbatim>\<open>document.querySelectorAll(sel)\<close> and \<^verbatim>\<open>$(sel)\<close>.\<close>

definition querySelectorAll :: "(node \<Rightarrow> bool) \<Rightarrow> node \<Rightarrow> located list" where
  "querySelectorAll sel doc = filter (\<lambda>e. sel (fst e)) (locate [] doc)"

text \<open>
  \<^verbatim>\<open>el.querySelector(sel)\<close> and the first element of \<^verbatim>\<open>$(el).find(sel)\<close>: the first
  match strictly below the element.
\<close>

definition querySelector :: "(node \<Rightarrow> bool) \<Rightarrow> node \<Rightarrow> node option" where
  "querySelector sel el = find sel (map fst (tl (locate [] el)))"

text \<open>\<^verbatim>\<open>el.closest(sel)\<close>: the element itself or its nearest matching ancestor.\<close>

definition closest :: "(node \<Rightarrow> bool) \<Rightarrow> located \<Rightarrow> node option" where
  "closest sel e = find sel (fst e # snd e)"

subsection \<open>Selectors\<close>

definition isAsciiSpace :: "nat \<Rightarrow> bool" where
  "isAsciiSpace c = (c = 9 \<or> c = 10 \<or> c = 12 \<or> c = 13 \<or> c = 32)"

text \<open>
  The tokens of a \<^verbatim>\<open>class\<close> attribute, split at the characters that \<open>sep\<close>
  holds of; \<open>cur\<close> is the token being read.
\<close>

fun splitTokens :: "(nat \<Rightarrow> bool) \<Rightarrow> jstring \<Rightarrow> jstring \<Rightarrow> jstring list" where
  "splitTokens sep cur [] = (if cur = [] then [] else [cur])"
| "splitTokens sep cur (c # cs) =
     (if sep c then (if cur = [] then [] else [cur]) @ splitTokens sep [] cs
      else splitTokens sep (cur @ [c]) cs)"

text \<open>
  The class selector \<^verbatim>\<open>.name\<close> is not the same test in the two tiers. The browser
  splits the attribute at ASCII white space (TAB, LF, FF, CR, SP) and compares the tokens
  with the name exactly, or without regard to ASCII case when the document is in quirks
  mode. The static parser (cheerio, through css-select, with its default options) tests
  the attribute against the regular expression \<^verbatim>\<open>(?:^|\s)name(?:$|\s)\<close>: the tokens
  are those between any two white-space characters of JavaScript, and they are compared
  exactly.
\<close>

datatype compat_mode = NoQuirks | Quirks

definition domHasClass :: "compat_mode \<Rightarrow> jstring \<Rightarrow> node \<Rightarrow> bool" where
  "domHasClass mode cls n =
     (case getAttribute (str ''class'') n of
        None \<Rightarrow> False
      | Some v \<Rightarrow>
          (case mode of
             NoQuirks \<Rightarrow> cls \<in> set (splitTokens isAsciiSpace [] v)
           | Quirks \<Rightarrow>
               map asciiLower cls \<in> set (map (map asciiLower) (splitTokens isAsciiSpace [] v))))"

definition cheerioHasClass :: "jstring \<Rightarrow> node \<Rightarrow> bool" where
  "cheerioHasClass cls n =
     (case getAttribute (str ''class'') n of
        None \<Rightarrow> False
      | Some v \<Rightarrow> cls \<in> set (splitTokens isWhiteSpace [] v))"

definition tagIs :: "jstring \<Rightarrow> node \<Rightarrow> bool" where
  "tagIs t n = (case n of TextNode x \<Rightarrow> False | Element t' a cs \<Rightarrow> t' = t)"

definition attrContains :: "jstring \<Rightarrow> jstring \<Rightarrow> node \<Rightarrow> bool" where
  "attrContains name sub n =
     (case getAttribute name n of None \<Rightarrow> False | Some v \<Rightarrow> jsIncludes v sub)"

text \<open>
  \<^verbatim>\<open>.albumTitle\<close> and \<^verbatim>\<open>.artistTitle\<close>, in the browser and in the static parser,
  and \<^verbatim>\<open>a[href*="/album/"]\<close>, which is the same test in both.
\<close>

definition domAlbumTitle :: "compat_mode \<Rightarrow> node \<Rightarrow> bool" where
  "domAlbumTitle mode n = domHasClass mode (str ''albumTitle'') n"

definition domArtistTitle :: "compat_mode \<Rightarrow> node \<Rightarrow> bool" where
  "domArtistTitle mode n = domHasClass mode (str ''artistTitle'') n"

definition cheerioAlbumTitle :: "node \<Rightarrow> bool" where
  "cheerioAlbumTitle n = cheerioHasClass (str ''albumTitle'') n"

definition cheerioArtistTitle :: "node \<Rightarrow> bool" where
  "cheerioArtistTitle n = cheerioHasClass (str ''artistTitle'') n"

definition isAlbumLink :: "node \<Rightarrow> bool" where
  "isAlbumLink n = (tagIs (str ''a'') n \<and> attrContains (str ''href'') (str ''/album/'') n)"

text \<open>
  The container selector of the Playwright tier,
  \<^verbatim>\<open>li, tr, [class*="album"], [class*="row"], div\<close>, and the one of the ZenRows tier,
  \<^verbatim>\<open>li, tr, [class*="row"], div\<close>.
\<close>

definition playwrightContainer :: "node \<Rightarrow> bool" where
  "playwrightContainer n =
     (tagIs (str ''li'') n \<or> tagIs (str ''tr'') n
      \<or> attrContains (str ''class'') (str ''album'') n
      \<or> attrContains (str ''class'') (str ''row'') n \<or> tagIs (str ''div'') n)"

definition zenRowsContainer :: "node \<Rightarrow> bool" where
  "zenRowsContainer n =
     (tagIs (str ''li'') n \<or> tagIs (str ''tr'') n
      \<or> attrContains (str ''class'') (str ''row'') n \<or> tagIs (str ''div'') n)"

section \<open>Chart-page extraction\<close>

record album_entry =
  rank :: nat
  artist :: jstring
  album :: jstring
  albumUrl :: "jstring option"

text \<open>\<^verbatim>\<open>x?.getAttribute?.('href') || null\<close> and \<^verbatim>\<open>$(x).attr('href') || null\<close>.\<close>

definition hrefOrNull :: "node option \<Rightarrow> jstring option" where
  "hrefOrNull l =
     (case l of
        None \<Rightarrow> None
      | Some e \<Rightarrow>
          (case getAttribute (str ''href'') e of
             None \<Rightarrow> None
           | Some h \<Rightarrow> if h = [] then None else Some h))"

text \<open>\<^verbatim>\<open>xs[i]?.textContent?.trim()\<close>, the empty string standing for \<^verbatim>\<open>undefined\<close>.\<close>

definition textAt :: "located list \<Rightarrow> nat \<Rightarrow> jstring" where
  "textAt els i = (if i < length els then trim (textContent (fst (els ! i))) else [])"

text \<open>\<^verbatim>\<open>.filter(({ artist, album }) => artist || album)\<close>\<close>

definition artistOrAlbum :: "album_entry \<Rightarrow> bool" where
  "artistOrAlbum e = (artist e \<noteq> [] \<or> album e \<noteq> [])"

subsection \<open>The Playwright tier's in-page function\<close>

text \<open>
  The function handed to \<^verbatim>\<open>page.evaluate\<close>, in three parts and then as a whole.
  First the body of \<^verbatim>\<open>albumEls.map((albumEl, i) => ...)\<close>:
  \<^verbatim>\<open>
  const album = albumEl?.textContent?.trim() || '';
  const container = albumEl.closest('li, tr, [class*="album"], [class*="row"], div');
  const artistEl = container?.querySelector?.('.artistTitle');
  const artist = (artistEl?.textContent?.trim()) || (artistEls[i]?.textContent?.trim()) || '';
  const albumLink = container?.querySelector?.('a[href*="/album/"]');
  const albumUrl = albumLink?.getAttribute?.('href') || null;
  return { rank: i + 1, artist, album, albumUrl };
  \<close>
\<close>

definition playwrightAlbumRow ::
  "compat_mode \<Rightarrow> located list \<Rightarrow> nat \<times> located \<Rightarrow> album_entry" where
  "playwrightAlbumRow mode artistEls p =
     (let i = fst p; albumEl = snd p;
          album' = jsOr (trim (textContent (fst albumEl))) [];
          container = closest playwrightContainer albumEl;
          artistEl = Option.bind container (querySelector (domArtistTitle mode));
          artist' = jsOr (case artistEl of None \<Rightarrow> [] | Some e \<Rightarrow> trim (textContent e))
                      (jsOr (textAt artistEls i) []);
          albumLink = Option.bind container (querySelector isAlbumLink)
      in \<lparr>rank = i + 1, artist = artist', album = album', albumUrl = hrefOrNull albumLink\<rparr>)"

text \<open>The body of \<^verbatim>\<open>artistEls.map((artistEl, i) => ...)\<close>.\<close>

definition playwrightArtistRow ::
  "compat_mode \<Rightarrow> located list \<Rightarrow> nat \<times> located \<Rightarrow> album_entry" where
  "playwrightArtistRow mode albumEls p =
     (let i = fst p; artistEl = snd p;
          artist' = jsOr (trim (textContent (fst artistEl))) [];
          container = closest playwrightContainer artistEl;
          albumEl = Option.bind container (querySelector (domAlbumTitle mode));
          album' = jsOr (case albumEl of None \<Rightarrow> [] | Some e \<Rightarrow> trim (textContent e))
                     (jsOr (textAt albumEls i) []);
          albumLink = Option.bind container (querySelector isAlbumLink)
      in \<lparr>rank = i + 1, artist = artist', album = album', albumUrl = hrefOrNull albumLink\<rparr>)"

text \<open>
  The body of \<^verbatim>\<open>links.map((a, i) => ...)\<close>, the fallback on anchors:
  \<^verbatim>\<open>
  const text = a?.textContent?.trim() || '';
  const idx = text.indexOf(' - ');
  const artist = idx > 0 ? text.slice(0, idx).trim() : '';
  const album = idx > 0 ? text.slice(idx + 3).trim() : text;
  const albumUrl = a?.getAttribute?.('href') || null;
  return { rank: i + 1, artist, album, albumUrl };
  \<close>
\<close>

definition playwrightLinkRow :: "nat \<times> located \<Rightarrow> album_entry" where
  "playwrightLinkRow p =
     (let i = fst p; a = fst (snd p);
          text = jsOr (trim (textContent a)) [];
          idx = indexOf text (str '' - '')
      in (case idx of
            Some (Suc k) \<Rightarrow>
              \<lparr>rank = i + 1, artist = trim (take (Suc k) text),
               album = trim (drop (Suc k + 3) text), albumUrl = hrefOrNull (Some a)\<rparr>
          | _ \<Rightarrow> \<lparr>rank = i + 1, artist = [], album = text, albumUrl = hrefOrNull (Some a)\<rparr>))"

definition playwrightExtract :: "nat \<Rightarrow> compat_mode \<Rightarrow> node \<Rightarrow> album_entry list" where
  "playwrightExtract limit mode doc =
     (let albumEls = take limit (querySelectorAll (domAlbumTitle mode) doc);
          artistEls = take limit (querySelectorAll (domArtistTitle mode) doc)
      in if albumEls \<noteq> [] \<or> artistEls \<noteq> [] then
           (if length albumEls \<ge> length artistEls
            then filter artistOrAlbum
                   (map (playwrightAlbumRow mode artistEls) (enumerate 0 albumEls))
            else filter artistOrAlbum
                   (map (playwrightArtistRow mode albumEls) (enumerate 0 artistEls)))
         else
           (let links = take limit
                  (filter (\<lambda>a. jsIncludes (textContent (fst a)) (str '' - ''))
                     (querySelectorAll isAlbumLink doc))
            in filter artistOrAlbum (map playwrightLinkRow (enumerate 0 links))))"

subsection \<open>The ZenRows tier's static parse\<close>

definition TOP_N :: nat where
  "TOP_N = 20"

text \<open>
  One round of \<^verbatim>\<open>for (let i = 0; i < n; i++)\<close>: the entries it pushes.
  \<^verbatim>\<open>
  const album = $(albumEls[i]).text().trim() || '';
  const artist = $(artistEls[i]).text().trim() || '';
  const albumUrl = $(albumEls[i]).closest('li, tr, [class*="row"], div')
    .find('a[href*="/album/"]').attr('href') || null;
  if (artist || album) albums.push({ rank: i + 1, artist, album, albumUrl });
  \<close>
\<close>

definition zenRowsRow :: "located list \<Rightarrow> located list \<Rightarrow> nat \<Rightarrow> album_entry list" where
  "zenRowsRow albumEls artistEls i =
     (let album' = jsOr (textAt albumEls i) [];
          artist' = jsOr (textAt artistEls i) [];
          container = (if i < length albumEls then closest zenRowsContainer (albumEls ! i)
                       else None);
          albumUrl' = hrefOrNull (Option.bind container (querySelector isAlbumLink))
      in if artist' \<noteq> [] \<or> album' \<noteq> []
         then [\<lparr>rank = i + 1, artist = artist', album = album', albumUrl = albumUrl'\<rparr>]
         else [])"

text \<open>
  One call of the \<^verbatim>\<open>.each((i, el) => ...)\<close> callback: the entries it pushes. The
  index \<open>i\<close> counts all album anchors, and the loop ends at the first \<open>i >= TOP_N\<close>.
  \<^verbatim>\<open>
  if (i >= TOP_N) return false;
  const text = $(el).text().trim();
  if (!text.includes(' - ')) return;
  const idx = text.indexOf(' - ');
  albums.push({ rank: i + 1, artist: text.slice(0, idx).trim(),
    album: text.slice(idx + 3).trim(), albumUrl: $(el).attr('href') || null });
  \<close>
\<close>

definition zenRowsLinkRow :: "nat \<times> located \<Rightarrow> album_entry list" where
  "zenRowsLinkRow p =
     (let i = fst p; el = fst (snd p);
          text = trim (textContent el)
      in (case indexOf text (str '' - '') of
            None \<Rightarrow> []
          | Some idx \<Rightarrow>
              [\<lparr>rank = i + 1, artist = trim (take idx text),
                album = trim (drop (idx + 3) text), albumUrl = hrefOrNull (Some el)\<rparr>]))"

definition zenRowsExtract :: "node \<Rightarrow> album_entry list" where
  "zenRowsExtract doc =
     (let albumEls = take TOP_N (querySelectorAll cheerioAlbumTitle doc);
          artistEls = take TOP_N (querySelectorAll cheerioArtistTitle doc)
      in if albumEls \<noteq> [] \<or> artistEls \<noteq> [] then
           (let n = max (length albumEls) (length artistEls)
            in concat (map (zenRowsRow albumEls artistEls) [0..<n]))
         else
           concat (map zenRowsLinkRow
             (takeWhile (\<lambda>p. \<not> fst p \<ge> TOP_N) (enumerate 0 (querySelectorAll isAlbumLink doc)))))"

section \<open>The two tiers and the tiered chart resolver\<close>

record scrape_result =
  albums :: "album_entry list"
  success :: bool
  notFound :: "bool option"

text \<open>
  What the headless browser does with a URL: something throws (launch, navigation or the
  in-page evaluation; the \<^verbatim>\<open>finally\<close> block closes the browser and the error goes
  on to the caller), or the page loads with a response status (\<open>None\<close> when
  \<^verbatim>\<open>page.goto\<close> resolves to null) and a document, which the browser holds in
  quirks mode or not.
\<close>

datatype browser_run = BrowserThrows | PageLoaded "nat option" compat_mode node

text \<open>
  The world of one request: the runtime's case mapping, the browser, the ZenRows key and
  proxy (\<open>None\<close> when the GET throws), whether the cache read fails with an error other
  than \<^verbatim>\<open>PGRST116\<close>, and the clock readings in milliseconds.
\<close>

record env =
  unicodeLower :: "jstring \<Rightarrow> jstring"
  browser :: "jstring \<Rightarrow> browser_run"
  apiKey :: "jstring option"
  proxy :: "jstring \<Rightarrow> jstring \<Rightarrow> node option"
  readFails :: bool
  now :: int
  nowWrite :: int
  nowResponse :: int
  nowStore :: int

definition chartUrl :: "jstring \<Rightarrow> jstring" where
  "chartUrl genreSlug =
     str ''https://www.albumoftheyear.org/ratings/user-highest-rated/all/'' @ genreSlug @ str ''/''"

text \<open>\<open>None\<close> is a thrown error.\<close>

definition scrapeAotyWithPlaywright :: "env \<Rightarrow> jstring \<Rightarrow> scrape_result option" where
  "scrapeAotyWithPlaywright e genreSlug =
     (case browser e (chartUrl genreSlug) of
        BrowserThrows \<Rightarrow> None
      | PageLoaded status mode doc \<Rightarrow>
          if status = Some 404
          then Some \<lparr>albums = [], success = False, notFound = Some True\<rparr>
          else (let as = playwrightExtract TOP_N mode doc
                in Some \<lparr>albums = as, success = (length as > 0),
                         notFound = Some (length as = 0)\<rparr>))"

text \<open>The ZenRows tier catches whatever its request or its parse throws.\<close>

definition scrapeAotyWithZenRows :: "env \<Rightarrow> jstring \<Rightarrow> scrape_result" where
  "scrapeAotyWithZenRows e genreSlug =
     (case apiKey e of
        None \<Rightarrow> \<lparr>albums = [], success = False, notFound = None\<rparr>
      | Some k \<Rightarrow>
          if k = [] then \<lparr>albums = [], success = False, notFound = None\<rparr>
          else (case proxy e k (chartUrl genreSlug) of
                  None \<Rightarrow> \<lparr>albums = [], success = False, notFound = None\<rparr>
                | Some doc \<Rightarrow>
                    (let as = zenRowsExtract doc
                     in \<lparr>albums = as, success = (length as > 0), notFound = None\<rparr>)))"

text \<open>
  What a request does to its collaborators, in order: the calls of the two tiers with the
  slug they receive, and the cache reads and writes with the key they use.
\<close>

datatype event =
    Tier1 jstring
  | Tier2 jstring
  | CacheSelect jstring
  | CacheUpdate jstring
  | CacheInsert jstring

text \<open>
  \<^verbatim>\<open>
  async function getChartData(genreSlug) {
    try {
      const result = await scrapeAotyWithPlaywright(genreSlug);
      if (result.success && result.albums.length > 0) return { albums: result.albums };
    } catch (err) { console.error(...); }
    const zenRows = await scrapeAotyWithZenRows(genreSlug);
    if (zenRows.success && zenRows.albums.length > 0) return { albums: zenRows.albums };
    return { albums: [] };
  }
  \<close>
  The result is the album list together with the tiers that were called.
\<close>

definition escalate :: "env \<Rightarrow> jstring \<Rightarrow> album_entry list \<times> event list" where
  "escalate e genreSlug =
     (let zenRows = scrapeAotyWithZenRows e genreSlug
      in if success zenRows \<and> length (albums zenRows) > 0
         then (albums zenRows, [Tier1 genreSlug, Tier2 genreSlug])
         else ([], [Tier1 genreSlug, Tier2 genreSlug]))"

definition getChartData :: "env \<Rightarrow> jstring \<Rightarrow> album_entry list \<times> event list" where
  "getChartData e genreSlug =
     (case scrapeAotyWithPlaywright e genreSlug of
        None \<Rightarrow> escalate e genreSlug
      | Some result \<Rightarrow>
          if success result \<and> length (albums result) > 0
          then (albums result, [Tier1 genreSlug])
          else escalate e genreSlug)"

section \<open>The chart cache and the chart request\<close>

text \<open>
  A row of \<^verbatim>\<open>rym_charts_cache\<close>. \<open>data\<close> is \<open>None\<close> when the stored JSON is falsy;
  the time stamps are milliseconds since the epoch, \<open>None\<close> when the column is null.
  The column \<^verbatim>\<open>genre\<close> is unique, so the table is a map from the key to the row.
\<close>

record cache_row =
  genre :: jstring
  data :: "album_entry list option"
  updated_at :: "int option"
  created_at :: "int option"

type_synonym store = "jstring \<Rightarrow> cache_row option"

datatype response =
    BadRequest
  | CachedChart jstring "album_entry list" int
  | NotFound jstring
  | FreshChart jstring "album_entry list" int

text \<open>\<^verbatim>\<open>new Date(cachedData.updated_at || cachedData.created_at)\<close>; \<^verbatim>\<open>new Date(null)\<close> is the epoch.\<close>

definition cacheTime :: "cache_row \<Rightarrow> int" where
  "cacheTime row =
     (case updated_at row of
        Some t \<Rightarrow> t
      | None \<Rightarrow> (case created_at row of Some t \<Rightarrow> t | None \<Rightarrow> 0))"

text \<open>
  The test \<^verbatim>\<open>(Date.now() - cacheTime) / (1000 * 60 * 60) < 24\<close>. Both times are whole
  milliseconds, and for whole numbers the quotient is below 24 exactly when the
  difference is below \<open>24 * (1000 * 60 * 60)\<close>, in floating point as in the integers.
\<close>

definition isFresh :: "int \<Rightarrow> cache_row \<Rightarrow> bool" where
  "isFresh t row = (t - cacheTime row < 24 * (1000 * 60 * 60))"

text \<open>The row the lookup hands back: none when the read fails.\<close>

definition selectRow :: "env \<Rightarrow> store \<Rightarrow> jstring \<Rightarrow> cache_row option" where
  "selectRow e db genreKey = (if readFails e then None else db genreKey)"

text \<open>
  \<^verbatim>\<open>update(chartPayload).eq('genre', genreKey)\<close> rewrites the three columns of the
  payload in the row of that key; \<^verbatim>\<open>insert(chartPayload)\<close> adds a row, which the
  unique column refuses when the key is there already. Neither throws: the client reports
  an error in its result, which the handler does not read.
\<close>

definition updateRow :: "env \<Rightarrow> store \<Rightarrow> jstring \<Rightarrow> album_entry list \<Rightarrow> store" where
  "updateRow e db genreKey as =
     (case db genreKey of
        None \<Rightarrow> db
      | Some row \<Rightarrow>
          db(genreKey := Some (row\<lparr>genre := genreKey, data := Some as,
                                    updated_at := Some (nowWrite e)\<rparr>)))"

definition insertRow :: "env \<Rightarrow> store \<Rightarrow> jstring \<Rightarrow> album_entry list \<Rightarrow> store" where
  "insertRow e db genreKey as =
     (case db genreKey of
        Some row \<Rightarrow> db
      | None \<Rightarrow>
          db(genreKey := Some \<lparr>genre = genreKey, data = Some as,
                                updated_at = Some (nowWrite e), created_at = Some (nowStore e)\<rparr>))"

text \<open>
  The handler of \<^verbatim>\<open>GET /api/chart/:genre\<close>: the response, the table afterwards and the
  events in order.
  \<^verbatim>\<open>
  const rawGenre = req.params.genre?.trim();
  if (!rawGenre) return res.status(400)...
  const genreSlug = formatGenreSlug(rawGenre);
  const genreKey = rawGenre.toLowerCase().trim();
  \<close>
\<close>

definition genreKeyOf :: "env \<Rightarrow> jstring \<Rightarrow> jstring" where
  "genreKeyOf e rawGenre = trim (toLowerCase (unicodeLower e) rawGenre)"

text \<open>
  The second half of the handler, reached when no fresh row was found:
  \<^verbatim>\<open>
  const { albums } = await getChartData(genreSlug);
  if (!albums || albums.length === 0) return res.status(404).json({ error: ..., genre: genreKey });
  const chartPayload = { genre: genreKey, data: albums, updated_at: new Date().toISOString() };
  if (cachedData) await supabase.from('rym_charts_cache').update(chartPayload).eq('genre', genreKey);
  else await supabase.from('rym_charts_cache').insert(chartPayload);
  res.json({ genre: genreKey, data: albums, cached: false, fetchedAt: ... });
  \<close>
\<close>

definition acquire ::
  "env \<Rightarrow> store \<Rightarrow> jstring \<Rightarrow> jstring \<Rightarrow> cache_row option \<Rightarrow> response \<times> store \<times> event list" where
  "acquire e db genreSlug genreKey cachedData =
     (let r = getChartData e genreSlug
      in if length (fst r) = 0
         then (NotFound genreKey, db, CacheSelect genreKey # snd r)
         else (case cachedData of
                 Some row \<Rightarrow>
                   (FreshChart genreKey (fst r) (nowResponse e),
                    updateRow e db genreKey (fst r),
                    CacheSelect genreKey # snd r @ [CacheUpdate genreKey])
               | None \<Rightarrow>
                   (FreshChart genreKey (fst r) (nowResponse e),
                    insertRow e db genreKey (fst r),
                    CacheSelect genreKey # snd r @ [CacheInsert genreKey])))"

text \<open>
  The first half: the lookup under \<open>genreKey\<close> and the test of freshness.
  \<^verbatim>\<open>
  const { data: cachedData, error: cacheError } = await supabase.from('rym_charts_cache')
    .select('*').eq('genre', genreKey).single();
  if (cachedData && cachedData.data) {
    const cacheTime = new Date(cachedData.updated_at || cachedData.created_at);
    const hoursSinceUpdate = (Date.now() - cacheTime) / (1000 * 60 * 60);
    if (hoursSinceUpdate < 24)
      return res.json({ genre: genreKey, data: cachedData.data, cached: true, cachedAt: ... });
  }
  \<close>
\<close>

definition chartRequest :: "env \<Rightarrow> store \<Rightarrow> jstring \<Rightarrow> response \<times> store \<times> event list" where
  "chartRequest e db param =
     (let rawGenre = trim param
      in if rawGenre = [] then (BadRequest, db, [])
         else
           (let genreSlug = formatGenreSlug (unicodeLower e) rawGenre;
                genreKey = genreKeyOf e rawGenre;
                cachedData = selectRow e db genreKey
            in (case cachedData of
                  None \<Rightarrow> acquire e db genreSlug genreKey cachedData
                | Some row \<Rightarrow>
                    (case data row of
                       None \<Rightarrow> acquire e db genreSlug genreKey cachedData
                     | Some d \<Rightarrow>
                         if isFresh (now e) row
                         then (CachedChart genreKey d (cacheTime row), db, [CacheSelect genreKey])
                         else acquire e db genreSlug genreKey cachedData))))"

text \<open>The slugs the resolver was called with, and the keys the cache was used with.\<close>

fun resolverCalls :: "event list \<Rightarrow> jstring list" where
  "resolverCalls [] = []"
| "resolverCalls (Tier1 s # es) = s # resolverCalls es"
| "resolverCalls (x # es) = resolverCalls es"

fun tier2Calls :: "event list \<Rightarrow> jstring list" where
  "tier2Calls [] = []"
| "tier2Calls (Tier2 s # es) = s # tier2Calls es"
| "tier2Calls (x # es) = tier2Calls es"

fun cacheKeys :: "event list \<Rightarrow> jstring list" where
  "cacheKeys [] = []"
| "cacheKeys (CacheSelect k # es) = k # cacheKeys es"
| "cacheKeys (CacheUpdate k # es) = k # cacheKeys es"
| "cacheKeys (CacheInsert k # es) = k # cacheKeys es"
| "cacheKeys (x # es) = cacheKeys es"

section \<open>Example inputs\<close>

definition exampleMarkerPage :: node where
  "exampleMarkerPage = Element (str ''html'') []
     [Element (str ''div'') [(str ''class'', str ''albumTitle'')] [TextNode (str ''Loveless'')],
      Element (str ''div'') [(str ''class'', str ''artistTitle'')]
        [TextNode (str '' My Bloody Valentine '')]]"

definition exampleEntry :: album_entry where
  "exampleEntry = \<lparr>rank = 1, artist = str ''My Bloody Valentine'', album = str ''Loveless'',
                    albumUrl = None\<rparr>"

definition exampleEnv :: "browser_run \<Rightarrow> jstring option \<Rightarrow> node option \<Rightarrow> int \<Rightarrow> env" where
  "exampleEnv run key page t =
     \<lparr>unicodeLower = (\<lambda>s. s), browser = (\<lambda>u. run), apiKey = key, proxy = (\<lambda>k u. page),
      readFails = False, now = t, nowWrite = t, nowResponse = t, nowStore = t\<rparr>"

definition exampleRow :: "int \<Rightarrow> cache_row" where
  "exampleRow t = \<lparr>genre = str ''shoegaze'', data = Some [exampleEntry], updated_at = Some t,
                    created_at = Some t\<rparr>"

definition exampleStore :: "cache_row \<Rightarrow> store" where
  "exampleStore row = (\<lambda>k. if k = str ''shoegaze'' then Some row else None)"

section \<open>Album-page extraction\<close>

definition isDigit :: "nat \<Rightarrow> bool" where
  "isDigit c = (48 \<le> c \<and> c \<le> 57)"

text \<open>
  \<^verbatim>\<open>parseInt(s, 10)\<close>: leading white space is skipped, a sign may follow, then the longest
  run of decimal digits is read; \<open>None\<close> is \<^verbatim>\<open>NaN\<close>, the result when there is no digit.
  The value is an integer here; the double that JavaScript makes of a long run of digits
  compares with 0 and 100 as the integer does.
\<close>

definition digitsValue :: "jstring \<Rightarrow> int" where
  "digitsValue ds = foldl (\<lambda>a d. 10 * a + int (d - 48)) 0 ds"

definition parseInt :: "jstring \<Rightarrow> int option" where
  "parseInt s =
     (let t = dropWhile isWhiteSpace s;
          negative = (t \<noteq> [] \<and> hd t = 45);
          u = (if t \<noteq> [] \<and> (hd t = 45 \<or> hd t = 43) then tl t else t);
          ds = takeWhile isDigit u
      in if ds = [] then None
         else Some (if negative then - digitsValue ds else digitsValue ds))"

text \<open>
  \<^verbatim>\<open>s.replace(/\d{1,2}:\d{2}$/, '')\<close>: when the string ends in a digit, a colon and two
  digits, that suffix goes, together with one more digit before it when there is one.
\<close>

definition stripDuration :: "jstring \<Rightarrow> jstring" where
  "stripDuration s =
     (case rev s of
        s2 # s1 # c # m # rest \<Rightarrow>
          if isDigit s2 \<and> isDigit s1 \<and> c = 58 \<and> isDigit m
          then (case rest of
                  [] \<Rightarrow> []
                | m' # rest' \<Rightarrow> if isDigit m' then rev rest' else rev rest)
          else s
      | _ \<Rightarrow> s)"

text \<open>\<^verbatim>\<open>el.querySelectorAll(sel)\<close>: the matches strictly below an element.\<close>

definition querySelectorAllIn :: "(node \<Rightarrow> bool) \<Rightarrow> node \<Rightarrow> node list" where
  "querySelectorAllIn sel el = filter sel (map fst (tl (locate [] el)))"

text \<open>
  \<^verbatim>\<open>
  const rows = Array.from(table.querySelectorAll('tr'));
  const parsed = rows.map((tr) => {
    const tds = tr.querySelectorAll('td');
    return Array.from(tds).map((td) => (td.textContent || '').trim());
  }).filter((row) => row.length >= 3);
  \<close>
\<close>

definition tableCells :: "node \<Rightarrow> jstring list list" where
  "tableCells table =
     map (\<lambda>tr. map (\<lambda>td. trim (jsOr (textContent td) []))
                 (querySelectorAllIn (tagIs (str ''td'')) tr))
       (querySelectorAllIn (tagIs (str ''tr'')) table)"

definition parsedRows :: "jstring list list \<Rightarrow> jstring list list" where
  "parsedRows cells = filter (\<lambda>row. length row \<ge> 3) cells"

text \<open>\<^verbatim>\<open>row[i]\<close>, read as the empty string where JavaScript gives \<^verbatim>\<open>undefined\<close>.\<close>

definition cell :: "jstring list \<Rightarrow> nat \<Rightarrow> jstring" where
  "cell row i = (if i < length row then row ! i else [])"

text \<open>
  One round of \<^verbatim>\<open>for (const row of parsed)\<close>: the \<^verbatim>\<open>{ name, rating }\<close> it pushes.
\<close>

definition ratedRow :: "jstring list \<Rightarrow> (jstring \<times> int) list" where
  "ratedRow row =
     (case parseInt (cell row 2) of
        None \<Rightarrow> []
      | Some rating \<Rightarrow>
          if rating < 0 \<or> rating > 100 then []
          else (let nameAndDuration = jsOr (cell row 1) [];
                    name = trim (stripDuration nameAndDuration)
                in if name = [] then [] else [(name, rating)]))"

definition withRating :: "jstring list list \<Rightarrow> (jstring \<times> int) list" where
  "withRating parsed = concat (map ratedRow parsed)"

text \<open>
  What the loop body does with one table: it skips the table (\<^verbatim>\<open>continue\<close>) when fewer
  than two rows have three cells, it goes on to the next table when fewer than two rows
  are rated, and it returns the names otherwise, sorted by falling rating. The sort of the
  runtime is stable, as \<open>sort_key\<close> is.
\<close>

datatype table_result = Skipped | TooFewRated | Tracks "jstring list"

definition tableTracks :: "jstring list list \<Rightarrow> table_result" where
  "tableTracks cells =
     (let parsed = parsedRows cells
      in if length parsed < 2 then Skipped
         else (let w = withRating parsed
               in if length w \<ge> 2 then Tracks (map fst (sort_key (\<lambda>x. - snd x) w))
                  else TooFewRated))"

fun firstTracks :: "jstring list list list \<Rightarrow> jstring list" where
  "firstTracks [] = []"
| "firstTracks (cells # rest) =
     (case tableTracks cells of Tracks names \<Rightarrow> names | _ \<Rightarrow> firstTracks rest)"

definition albumPageExtract :: "node \<Rightarrow> jstring list" where
  "albumPageExtract doc =
     firstTracks (map (\<lambda>t. tableCells (fst t)) (querySelectorAll (tagIs (str ''table'')) doc))"

text \<open>
  \<^verbatim>\<open>scrapeAotyAlbumTracks(albumPath)\<close>: no path, no request; a throw of the browser
  is caught and gives the empty list.
\<close>

definition AOTY_BASE :: jstring where
  "AOTY_BASE = str ''https://www.albumoftheyear.org''"

definition scrapeAotyAlbumTracks :: "(jstring \<Rightarrow> browser_run) \<Rightarrow> jstring option \<Rightarrow> jstring list" where
  "scrapeAotyAlbumTracks br albumPath =
     (case albumPath of
        None \<Rightarrow> []
      | Some p \<Rightarrow>
          if p = [] then []
          else (let pathNorm = (if startsWith p (str ''/'') then p else str ''/'' @ p)
                in (case br (AOTY_BASE @ pathNorm) of
                      BrowserThrows \<Rightarrow> []
                    | PageLoaded status mode doc \<Rightarrow> albumPageExtract doc)))"

text \<open>
  The words of the specification: a cell is purely numeric when it is a non-empty run of
  digits; a table is a candidate when at least two of its rows have three cells and the
  first cell of the first such row is purely numeric; a row is usable when its third cell
  parses as a rating from 0 to 100.
\<close>

definition purelyNumeric :: "jstring \<Rightarrow> bool" where
  "purelyNumeric s = (s \<noteq> [] \<and> list_all isDigit s)"

definition specCandidate :: "jstring list list \<Rightarrow> bool" where
  "specCandidate cells =
     (length (parsedRows cells) \<ge> 2 \<and> purelyNumeric (cell (hd (parsedRows cells)) 0))"

definition specUsable :: "jstring list \<Rightarrow> bool" where
  "specUsable row =
     (case parseInt (cell row 2) of None \<Rightarrow> False | Some r \<Rightarrow> 0 \<le> r \<and> r \<le> 100)"

definition tableElement :: "jstring list list \<Rightarrow> node" where
  "tableElement rows =
     Element (str ''table'') []
       (map (\<lambda>row. Element (str ''tr'') []
               (map (\<lambda>c. Element (str ''td'') [] [TextNode c]) row)) rows)"

definition exampleTrackTable :: "jstring list list" where
  "exampleTrackTable =
     [[str ''1'', str ''Intro 1:02'', str ''80''],
      [str ''2'', str ''Void 3:45'', str ''95''],
      [str ''3'', [8212], str ''notanumber'']]"

definition exampleUnnumberedTable :: "jstring list list" where
  "exampleUnnumberedTable =
     [[str ''A'', str ''Intro 1:02'', str ''80''],
      [str ''B'', str ''Void 3:45'', str ''95'']]"

definition exampleUnratedTable :: "jstring list list" where
  "exampleUnratedTable =
     [[str ''1'', str ''Intro 1:02'', str ''80''],
      [str ''2'', str ''Void 3:45'', str ''n/a'']]"

definition pageOf :: "node list \<Rightarrow> node" where
  "pageOf body = Element (str ''html'') [] [Element (str ''body'') [] body]"

section \<open>Cross-catalog track selector\<close>

text \<open>
  A track of the destination catalog, as \<^verbatim>\<open>GET /albums/{id}/tracks\<close> lists it. The code
  tests \<^verbatim>\<open>t.id\<close>, \<^verbatim>\<open>t.name\<close> and \<^verbatim>\<open>t.uri\<close> for truthiness only, and
  \<^verbatim>\<open>null\<close>, \<^verbatim>\<open>undefined\<close> and the empty string are all falsy: the empty string
  stands for the three of them.
\<close>

record track =
  trackId :: jstring
  trackName :: jstring
  uri :: jstring

text \<open>
  An entry of the answer of \<^verbatim>\<open>spotifyApi.getTracks(ids)\<close>; an entry may be null, and
  \<^verbatim>\<open>t.popularity ?? 0\<close> reads a missing popularity as 0.
\<close>

record track_detail =
  detailUri :: jstring
  popularity :: "int option"

definition TRACKS_PER_ALBUM :: nat where
  "TRACKS_PER_ALBUM = 3"

subsection \<open>Name normalization\<close>

text \<open>
  \<^verbatim>\<open>.replace(/\s*\([^)]*\)/g, '')\<close>. \<open>matchParen s\<close> is what follows a match that
  starts at the head of \<open>s\<close>: white space, an opening parenthesis, and everything up to
  the next closing one, which has to exist.
\<close>

definition matchParen :: "jstring \<Rightarrow> jstring option" where
  "matchParen s =
     (case dropWhile isWhiteSpace s of
        [] \<Rightarrow> None
      | c # cs \<Rightarrow>
          if c = 40
          then (case dropWhile (\<lambda>x. x \<noteq> 41) cs of [] \<Rightarrow> None | x # rest \<Rightarrow> Some rest)
          else None)"

function stripParens :: "jstring \<Rightarrow> jstring" where
  "stripParens [] = []"
| "stripParens (c # cs) =
     (case matchParen (c # cs) of
        Some rest \<Rightarrow> stripParens rest
      | None \<Rightarrow> c # stripParens cs)"
  by pat_completeness auto
termination
proof (relation "measure length")
  show "wf (measure length)" by simp
next
  fix c :: nat and cs rest :: jstring
  assume a: "matchParen (c # cs) = Some rest"
  then obtain d ds where d: "dropWhile isWhiteSpace (c # cs) = d # ds"
    by (auto simp: matchParen_def split: list.splits)
  with a obtain x where r: "dropWhile (\<lambda>x. x \<noteq> 41) ds = x # rest"
    by (auto simp: matchParen_def split: list.splits if_splits)
  have "length (x # rest) \<le> length ds"
    using length_dropWhile_le [of "\<lambda>x. x \<noteq> 41" ds] r by simp
  moreover have "length (d # ds) \<le> length (c # cs)"
    using length_dropWhile_le [of isWhiteSpace "c # cs"] d by simp
  ultimately show "(rest, c # cs) \<in> measure length" by simp
next
  fix c :: nat and cs :: jstring
  show "(cs, c # cs) \<in> measure length" by simp
qed

text \<open>
  \<^verbatim>\<open>.replace(/\s*[\u2013\u2014-]\s*.*$/, '')\<close>: the string is cut at the first
  place where white space and a dash (U+2013, U+2014 or the hyphen) start a tail that
  runs to the end of the string. The dot matches no line terminator, so after the dash
  and the white space that follows it no line terminator may come.
\<close>

definition isDash :: "nat \<Rightarrow> bool" where
  "isDash c = (c = 8211 \<or> c = 8212 \<or> c = 45)"

definition isLineTerminator :: "nat \<Rightarrow> bool" where
  "isLineTerminator c = (c = 10 \<or> c = 13 \<or> c = 8232 \<or> c = 8233)"

definition matchDashTail :: "jstring \<Rightarrow> bool" where
  "matchDashTail s =
     (case dropWhile isWhiteSpace s of
        [] \<Rightarrow> False
      | c # cs \<Rightarrow>
          isDash c \<and> list_all (\<lambda>x. \<not> isLineTerminator x) (dropWhile isWhiteSpace cs))"

fun stripDashTail :: "jstring \<Rightarrow> jstring" where
  "stripDashTail [] = []"
| "stripDashTail (c # cs) = (if matchDashTail (c # cs) then [] else c # stripDashTail cs)"

text \<open>
  \<^verbatim>\<open>
  function norm(s) {
    return (s || '').toLowerCase().replace(/\s*\([^)]*\)/g, '')
      .replace(/\s*[\u2013\u2014-]\s*.*$/, '').replace(/\s+/g, ' ').trim();
  }
  \<close>
\<close>

definition norm :: "(jstring \<Rightarrow> jstring) \<Rightarrow> jstring \<Rightarrow> jstring" where
  "norm u s =
     trim (replaceWhitespaceRuns (str '' '')
       (stripDashTail (stripParens (toLowerCase u (jsOr s [])))))"

subsection \<open>Matching a rated name to a catalog track\<close>

text \<open>
  A JavaScript \<^verbatim>\<open>Map\<close> as the list of its entries in insertion order: setting a key
  that is there already replaces its value in place.
\<close>

fun mapSet :: "(jstring \<times> jstring) list \<Rightarrow> jstring \<Rightarrow> jstring \<Rightarrow> (jstring \<times> jstring) list" where
  "mapSet [] k v = [(k, v)]"
| "mapSet (p # ps) k v = (if fst p = k then (k, v) # ps else p # mapSet ps k v)"

definition newMap :: "(jstring \<times> jstring) list \<Rightarrow> (jstring \<times> jstring) list" where
  "newMap entries = foldl (\<lambda>m p. mapSet m (fst p) (snd p)) [] entries"

text \<open>\<^verbatim>\<open>m.get(k)\<close>, the empty string for \<^verbatim>\<open>undefined\<close>.\<close>

definition mapGet :: "(jstring \<times> jstring) list \<Rightarrow> jstring \<Rightarrow> jstring" where
  "mapGet m k = (case map_of m k of None \<Rightarrow> [] | Some v \<Rightarrow> v)"

text \<open>The loop \<^verbatim>\<open>for (const [spotifyNorm, u] of spotifyNormToUri)\<close> of \<^verbatim>\<open>findMatch\<close>.\<close>

fun scanMatch :: "jstring \<Rightarrow> (jstring \<times> jstring) list \<Rightarrow> jstring" where
  "scanMatch n [] = []"
| "scanMatch n (p # ps) =
     (if jsIncludes (fst p) n \<or> jsIncludes n (fst p) then snd p
      else if length n \<ge> 4 \<and> startsWith (fst p) n then snd p
      else scanMatch n ps)"

definition findMatch ::
  "(jstring \<Rightarrow> jstring) \<Rightarrow> jstring \<Rightarrow> (jstring \<times> jstring) list \<Rightarrow> jstring" where
  "findMatch u aotyName spotifyNormToUri =
     (let n = norm u aotyName;
          found = mapGet spotifyNormToUri n
      in if found \<noteq> [] then found else scanMatch n spotifyNormToUri)"

subsection \<open>Padding and the popularity order\<close>

text \<open>
  \<^verbatim>\<open>
  const used = new Set(uris);
  for (const t of items) {
    if (uris.length >= limit) break;
    if (t.uri && !used.has(t.uri)) { uris.push(t.uri); used.add(t.uri); }
  }
  \<close>
  The set \<open>used\<close> holds the elements of \<open>uris\<close> at every step.
\<close>

fun padUris :: "nat \<Rightarrow> track list \<Rightarrow> jstring list \<Rightarrow> jstring list" where
  "padUris limit [] uris = uris"
| "padUris limit (t # ts) uris =
     (if length uris \<ge> limit then uris
      else if uri t \<noteq> [] \<and> uri t \<notin> set uris then padUris limit ts (uris @ [uri t])
      else padUris limit ts uris)"

text \<open>\<^verbatim>\<open>albumTrackItems.slice(0, take).map((t) => t.uri).filter(Boolean)\<close>\<close>

definition firstUris :: "nat \<Rightarrow> track list \<Rightarrow> jstring list" where
  "firstUris k items = filter (\<lambda>x. x \<noteq> []) (map uri (take k items))"

definition withPopularity :: "track_detail option list \<Rightarrow> (jstring \<times> int) list" where
  "withPopularity tracks =
     map (\<lambda>t. (detailUri t, (case popularity t of None \<Rightarrow> 0 | Some p \<Rightarrow> p)))
       (filter (\<lambda>t. detailUri t \<noteq> []) (concat (map (\<lambda>t. case t of None \<Rightarrow> [] | Some d \<Rightarrow> [d]) tracks)))"

text \<open>
  \<^verbatim>\<open>withPopularity.sort((a, b) => b.popularity - a.popularity)\<close>, a stable sort, and
  \<^verbatim>\<open>withPopularity.slice(0, take).map((t) => t.uri)\<close>.
\<close>

definition topUris :: "nat \<Rightarrow> track_detail option list \<Rightarrow> jstring list" where
  "topUris k tracks = map fst (take k (sort_key (\<lambda>x. - snd x) (withPopularity tracks)))"

text \<open>
  \<open>getTopTrackUrisByPopularity\<close>. The request for the details is the parameter
  \<open>getTracks\<close>; \<open>None\<close> is a throw, which the \<^verbatim>\<open>catch\<close> answers with the first
  tracks in album order.
\<close>

definition getTopTrackUrisByPopularity ::
  "(jstring list \<Rightarrow> track_detail option list option) \<Rightarrow> track list \<Rightarrow> nat \<Rightarrow> jstring list" where
  "getTopTrackUrisByPopularity getTracks albumTrackItems n =
     (let take' = min n (length albumTrackItems)
      in if take' = 0 then []
         else (let ids = filter (\<lambda>x. x \<noteq> []) (map trackId (take 50 albumTrackItems))
               in if length ids = 0 then firstUris take' albumTrackItems
                  else (case getTracks ids of
                          None \<Rightarrow> firstUris take' albumTrackItems
                        | Some tracks \<Rightarrow>
                            (let uris = topUris take' tracks
                             in if length uris \<ge> take' then uris
                                else padUris take' albumTrackItems uris))))"

subsection \<open>The selection for one album\<close>

text \<open>
  The rating-match loop
  \<^verbatim>\<open>for (let i = 0; i < Math.min(TRACKS_PER_ALBUM, aotyOrder.length); i++)\<close>.
\<close>

definition matchRated ::
  "(jstring \<Rightarrow> jstring) \<Rightarrow> (jstring \<times> jstring) list \<Rightarrow> jstring list \<Rightarrow> jstring list" where
  "matchRated u byNorm aotyOrder =
     foldl (\<lambda>urisToAdd aotyName.
              (let found = findMatch u aotyName byNorm
               in if found \<noteq> [] \<and> found \<notin> set urisToAdd then urisToAdd @ [found]
                  else urisToAdd))
       [] (take (min TRACKS_PER_ALBUM (length aotyOrder)) aotyOrder)"

text \<open>
  The part of \<^verbatim>\<open>POST /api/generate-playlist\<close> that chooses the tracks of one album,
  from the catalog's track list \<open>items\<close> on: nothing for an album without tracks;
  otherwise the rated names matched against the catalog, or the popularity order when
  there is no album page or no rated name; then the padding up to three.
\<close>

definition isTruthy :: "jstring option \<Rightarrow> bool" where
  "isTruthy x = (case x of None \<Rightarrow> False | Some s \<Rightarrow> s \<noteq> [])"





definition exampleAnchorPage :: node where
  "exampleAnchorPage = pageOf
     [Element (str ''a'') [(str ''href'', str ''/album/1-x.php'')] [TextNode (str ''Reviews'')],
      Element (str ''a'') [(str ''href'', str ''/album/2-y.php'')]
        [TextNode (str ''Slowdive - Souvlaki'')]]"

definition exampleListPage :: node where
  "exampleListPage = pageOf
     [Element (str ''li'') []
        [Element (str ''a'') [(str ''href'', str ''/album/2-y.php'')] [TextNode (str ''cover'')],
         Element (str ''span'') [(str ''class'', str ''albumTitle'')] [TextNode (str ''Souvlaki'')],
         Element (str ''span'') [(str ''class'', str ''artistTitle'')] [TextNode (str ''Slowdive'')]]]"

definition exampleClassElement :: "jstring \<Rightarrow> node" where
  "exampleClassElement cls = Element (str ''div'') [(str ''class'', cls)] []"


section \<open>Properties of the slug normalizer\<close>

lemma slug_char_not_space: "isSlugChar c \<Longrightarrow> \<not> isWhiteSpace c"
  by (auto simp: isSlugChar_def isWhiteSpace_def)

lemma slug_char_lower: "isSlugChar c \<Longrightarrow> asciiLower c = c \<and> c < 128"
  by (auto simp: isSlugChar_def asciiLower_def)

lemma toLowerCase_slug: "list_all isSlugChar s \<Longrightarrow> toLowerCase uni s = s"
proof -
  assume a: "list_all isSlugChar s"
  then have "list_all (\<lambda>c. c < 128) s"
    by (induction s) (auto simp: slug_char_lower)
  moreover from a have "map asciiLower s = s"
    by (induction s) (auto simp: slug_char_lower)
  ultimately show ?thesis by (simp add: toLowerCase_def)
qed

lemma dropWhile_no_space:
  "list_all (\<lambda>c. \<not> isWhiteSpace c) s \<Longrightarrow> dropWhile isWhiteSpace s = s"
  by (cases s) auto

lemma trim_no_space: "list_all (\<lambda>c. \<not> isWhiteSpace c) s \<Longrightarrow> trim s = s"
proof -
  assume a: "list_all (\<lambda>c. \<not> isWhiteSpace c) s"
  then have "list_all (\<lambda>c. \<not> isWhiteSpace c) (rev s)"
    by (simp add: list_all_iff)
  then have "dropWhile isWhiteSpace (rev s) = rev s"
    by (rule dropWhile_no_space)
  with a show ?thesis by (simp add: trim_def dropWhile_no_space)
qed

lemma replaceWhitespaceRuns_no_space:
  "list_all (\<lambda>c. \<not> isWhiteSpace c) s \<Longrightarrow> replaceWhitespaceRuns r s = s"
  by (induction s) auto

lemma slug_is_fixed_point:
  assumes "list_all isSlugChar s"
  shows "formatGenreSlug uni s = s"
proof -
  from assms have ns: "list_all (\<lambda>c. \<not> isWhiteSpace c) s"
    by (induction s) (auto simp: slug_char_not_space)
  from assms have "filter isSlugChar s = s"
    by (induction s) auto
  with assms ns show ?thesis
    by (simp add: formatGenreSlug_def toLowerCase_slug trim_no_space
        replaceWhitespaceRuns_no_space)
qed

lemma formatGenreSlug_alphabet: "list_all isSlugChar (formatGenreSlug uni x)"
  by (simp add: formatGenreSlug_def list_all_iff)

text \<open>
  C8. Normalizing a slug a second time changes nothing, whatever the input string and
  whatever the runtime's case mapping does beyond ASCII; and \<^verbatim>\<open>"Synth Pop"\<close> becomes
  \<^verbatim>\<open>"synth-pop"\<close>, \<^verbatim>\<open>"R&B!!"\<close> becomes \<^verbatim>\<open>"rb"\<close>.
\<close>

theorem formatGenreSlug_idempotent:
  "formatGenreSlug uni (formatGenreSlug uni x) = formatGenreSlug uni x
   \<and> formatGenreSlug uni (str ''Synth Pop'') = str ''synth-pop''
   \<and> formatGenreSlug uni (str ''R&B!!'') = str ''rb''"
proof (intro conjI)
  show "formatGenreSlug uni (formatGenreSlug uni x) = formatGenreSlug uni x"
    by (rule slug_is_fixed_point) (rule formatGenreSlug_alphabet)
  show "formatGenreSlug uni (str ''Synth Pop'') = str ''synth-pop''"
    by (simp add: formatGenreSlug_def toLowerCase_def asciiLower_def trim_def str_def
        isWhiteSpace_def isSlugChar_def)
  show "formatGenreSlug uni (str ''R&B!!'') = str ''rb''"
    by (simp add: formatGenreSlug_def toLowerCase_def asciiLower_def trim_def str_def
        isWhiteSpace_def isSlugChar_def)
qed

section \<open>Evaluation on concrete inputs\<close>

lemmas string_eval = str_def trim_def isWhiteSpace_def startsWith_def jsIncludes_def jsOr_def
lemmas dom_eval = querySelectorAll_def querySelector_def closest_def isAsciiSpace_def
  domHasClass_def cheerioHasClass_def tagIs_def attrContains_def domAlbumTitle_def domArtistTitle_def
  cheerioAlbumTitle_def cheerioArtistTitle_def asciiLower_def isAlbumLink_def
  playwrightContainer_def zenRowsContainer_def hrefOrNull_def textAt_def artistOrAlbum_def
lemmas extract_eval = playwrightAlbumRow_def playwrightArtistRow_def playwrightLinkRow_def
  playwrightExtract_def TOP_N_def zenRowsRow_def zenRowsLinkRow_def zenRowsExtract_def

lemma playwright_marker_page: "playwrightExtract TOP_N NoQuirks exampleMarkerPage = [exampleEntry]"
  by (simp add: exampleMarkerPage_def exampleEntry_def string_eval dom_eval extract_eval Let_def)

lemma zenRows_marker_page: "zenRowsExtract exampleMarkerPage = [exampleEntry]"
  by (simp add: exampleMarkerPage_def exampleEntry_def string_eval dom_eval extract_eval Let_def)

lemma playwright_empty_page: "playwrightExtract TOP_N NoQuirks (TextNode []) = []"
  by (simp add: string_eval dom_eval extract_eval Let_def)

section \<open>The tiered chart resolver\<close>

lemma zenRows_success:
  "success (scrapeAotyWithZenRows e s) = (albums (scrapeAotyWithZenRows e s) \<noteq> [])"
  by (simp add: scrapeAotyWithZenRows_def Let_def split: option.splits)

lemma playwright_success:
  "scrapeAotyWithPlaywright e s = Some r \<Longrightarrow> success r = (albums r \<noteq> [])"
  by (auto simp: scrapeAotyWithPlaywright_def Let_def split: browser_run.splits if_splits)

lemma escalate_result:
  "escalate e s = (albums (scrapeAotyWithZenRows e s), [Tier1 s, Tier2 s])"
  using zenRows_success [of e s] by (simp add: escalate_def Let_def)

text \<open>
  C3. The resolver calls the Playwright tier first. If that tier throws, the resolver still
  returns a value and has called the ZenRows tier. If the Playwright tier returns a
  non-empty list, that list is the result and the ZenRows tier is not called. If the first
  tier yields nothing and the second a non-empty list, the result is the second tier's
  list; if both yield nothing, the result is the empty list.
\<close>

theorem getChartData_tiers:
  "(scrapeAotyWithPlaywright e s = None \<longrightarrow>
      getChartData e s = (albums (scrapeAotyWithZenRows e s), [Tier1 s, Tier2 s]))
   \<and> (\<forall>r. scrapeAotyWithPlaywright e s = Some r \<and> albums r \<noteq> [] \<longrightarrow>
          getChartData e s = (albums r, [Tier1 s]) \<and> tier2Calls (snd (getChartData e s)) = [])
   \<and> ((scrapeAotyWithPlaywright e s = None
         \<or> (\<exists>r. scrapeAotyWithPlaywright e s = Some r \<and> albums r = []))
        \<and> albums (scrapeAotyWithZenRows e s) \<noteq> [] \<longrightarrow>
          fst (getChartData e s) = albums (scrapeAotyWithZenRows e s))
   \<and> ((scrapeAotyWithPlaywright e s = None
         \<or> (\<exists>r. scrapeAotyWithPlaywright e s = Some r \<and> albums r = []))
        \<and> albums (scrapeAotyWithZenRows e s) = [] \<longrightarrow>
        fst (getChartData e s) = [])"
proof (intro conjI allI impI)
  assume "scrapeAotyWithPlaywright e s = None"
  then show "getChartData e s = (albums (scrapeAotyWithZenRows e s), [Tier1 s, Tier2 s])"
    by (simp add: getChartData_def escalate_result)
next
  fix r assume a: "scrapeAotyWithPlaywright e s = Some r \<and> albums r \<noteq> []"
  with playwright_success [of e s r] show "getChartData e s = (albums r, [Tier1 s])"
    by (simp add: getChartData_def)
  from a playwright_success [of e s r] show "tier2Calls (snd (getChartData e s)) = []"
    by (simp add: getChartData_def)
next
  assume "(scrapeAotyWithPlaywright e s = None
         \<or> (\<exists>r. scrapeAotyWithPlaywright e s = Some r \<and> albums r = []))
        \<and> albums (scrapeAotyWithZenRows e s) \<noteq> []"
  then show "fst (getChartData e s) = albums (scrapeAotyWithZenRows e s)"
    by (auto simp: getChartData_def escalate_result)
next
  assume "(scrapeAotyWithPlaywright e s = None
         \<or> (\<exists>r. scrapeAotyWithPlaywright e s = Some r \<and> albums r = []))
        \<and> albums (scrapeAotyWithZenRows e s) = []"
  then show "fst (getChartData e s) = []"
    by (auto simp: getChartData_def escalate_result)
qed

lemma example_playwright_throws:
  "scrapeAotyWithPlaywright (exampleEnv BrowserThrows k p t) s = None"
  by (simp add: scrapeAotyWithPlaywright_def exampleEnv_def)

lemma example_playwright_page:
  "scrapeAotyWithPlaywright (exampleEnv (PageLoaded (Some 200) NoQuirks exampleMarkerPage) k p t) s =
     Some \<lparr>albums = [exampleEntry], success = True, notFound = Some False\<rparr>"
  by (simp add: scrapeAotyWithPlaywright_def exampleEnv_def playwright_marker_page)

lemma example_playwright_empty:
  "scrapeAotyWithPlaywright (exampleEnv (PageLoaded (Some 200) NoQuirks (TextNode [])) k p t) s =
     Some \<lparr>albums = [], success = False, notFound = Some True\<rparr>"
  by (simp add: scrapeAotyWithPlaywright_def exampleEnv_def playwright_empty_page)

lemma example_zenRows_page:
  "scrapeAotyWithZenRows (exampleEnv run (Some (str ''key'')) (Some exampleMarkerPage) t) s =
     \<lparr>albums = [exampleEntry], success = True, notFound = None\<rparr>"
  by (simp add: scrapeAotyWithZenRows_def exampleEnv_def zenRows_marker_page str_def)

lemma example_zenRows_skipped:
  "scrapeAotyWithZenRows (exampleEnv run None p t) s =
     \<lparr>albums = [], success = False, notFound = None\<rparr>"
  by (simp add: scrapeAotyWithZenRows_def exampleEnv_def)

theorem getChartData_tiers_witness:
  "getChartData (exampleEnv BrowserThrows (Some (str ''key'')) (Some exampleMarkerPage) 0)
      (str ''shoegaze'') = ([exampleEntry], [Tier1 (str ''shoegaze''), Tier2 (str ''shoegaze'')])
   \<and> getChartData (exampleEnv (PageLoaded (Some 200) NoQuirks exampleMarkerPage) None None 0)
      (str ''shoegaze'') = ([exampleEntry], [Tier1 (str ''shoegaze'')])
   \<and> fst (getChartData
        (exampleEnv (PageLoaded (Some 200) NoQuirks (TextNode [])) (Some (str ''key''))
           (Some exampleMarkerPage) 0) (str ''shoegaze'')) = [exampleEntry]
   \<and> fst (getChartData (exampleEnv BrowserThrows None None 0) (str ''shoegaze'')) = []"
  using
    getChartData_tiers [of "exampleEnv BrowserThrows (Some (str ''key'')) (Some exampleMarkerPage) 0"
      "str ''shoegaze''"]
    getChartData_tiers [of "exampleEnv (PageLoaded (Some 200) NoQuirks exampleMarkerPage) None None 0"
      "str ''shoegaze''"]
    getChartData_tiers [of "exampleEnv (PageLoaded (Some 200) NoQuirks (TextNode [])) (Some (str ''key''))
           (Some exampleMarkerPage) 0" "str ''shoegaze''"]
    getChartData_tiers [of "exampleEnv BrowserThrows None None 0" "str ''shoegaze''"]
  by (simp add: example_playwright_throws example_playwright_page example_playwright_empty
      example_zenRows_page example_zenRows_skipped)

section \<open>The chart request\<close>

lemma getChartData_trace:
  "snd (getChartData e s) = [Tier1 s] \<or> snd (getChartData e s) = [Tier1 s, Tier2 s]"
  by (simp add: getChartData_def escalate_result split: option.splits)

lemma resolverCalls_getChartData: "resolverCalls (snd (getChartData e s)) = [s]"
  using getChartData_trace [of e s] by auto

lemma resolverCalls_append: "resolverCalls (xs @ ys) = resolverCalls xs @ resolverCalls ys"
  by (induction xs rule: resolverCalls.induct) auto

lemma cacheKeys_append: "cacheKeys (xs @ ys) = cacheKeys xs @ cacheKeys ys"
  by (induction xs rule: cacheKeys.induct) auto

lemma cacheKeys_getChartData: "cacheKeys (snd (getChartData e s)) = []"
  using getChartData_trace [of e s] by auto

lemma acquire_resolverCalls: "resolverCalls (snd (snd (acquire e db s k c))) = [s]"
  by (simp add: acquire_def Let_def resolverCalls_append resolverCalls_getChartData
      split: option.splits)

lemma acquire_cacheKeys: "list_all (\<lambda>x. x = k) (cacheKeys (snd (snd (acquire e db s k c))))"
  by (simp add: acquire_def Let_def cacheKeys_append cacheKeys_getChartData split: option.splits)

lemma acquire_NotFound:
  "(fst (acquire e db s k c) = NotFound k') = (k' = k \<and> fst (getChartData e s) = [])"
  by (auto simp: acquire_def Let_def split: option.splits)

lemma acquire_empty:
  "fst (getChartData e s) = [] \<Longrightarrow>
   acquire e db s k c = (NotFound k, db, CacheSelect k # snd (getChartData e s))"
  by (simp add: acquire_def Let_def)

lemma acquire_other_keys: "k' \<noteq> k \<Longrightarrow> fst (snd (acquire e db s k c)) k' = db k'"
  by (simp add: acquire_def Let_def updateRow_def insertRow_def split: option.splits)

lemma cacheTime_updated: "updated_at row = Some t \<Longrightarrow> cacheTime row = t"
  by (simp add: cacheTime_def)


text \<open>
  C5. When the record of the key is stale and the resolver returns no album, the request
  is answered not-found and the table is what it was before the request.
\<close>

theorem stale_row_left_untouched:
  assumes "trim param \<noteq> []"
    and "db (genreKeyOf e (trim param)) = Some row"
    and "updated_at row = Some t"
    and "24 * (1000 * 60 * 60) \<le> now e - t"
    and "fst (getChartData e (formatGenreSlug (unicodeLower e) (trim param))) = []"
  shows "fst (chartRequest e db param) = NotFound (genreKeyOf e (trim param))
       \<and> fst (snd (chartRequest e db param)) = db
       \<and> fst (snd (chartRequest e db param)) (genreKeyOf e (trim param)) = Some row"
proof -
  from assms(2-4) have "selectRow e db (genreKeyOf e (trim param)) = None
      \<or> (selectRow e db (genreKeyOf e (trim param)) = Some row \<and> \<not> isFresh (now e) row)"
    by (auto simp: selectRow_def isFresh_def cacheTime_updated)
  with assms(1,5) have "chartRequest e db param =
     (NotFound (genreKeyOf e (trim param)), db,
      CacheSelect (genreKeyOf e (trim param))
        # snd (getChartData e (formatGenreSlug (unicodeLower e) (trim param))))"
    by (auto simp: chartRequest_def Let_def acquire_empty split: option.splits)
  with assms(2) show ?thesis by simp
qed

text \<open>
  C10. When the Playwright tier sees a 404 response it returns no album with
  \<open>notFound\<close> set; the resolver then calls the ZenRows tier all the same, and a chart
  request that reaches the resolver is answered not-found exactly when the ZenRows tier
  yields no album either.
\<close>

theorem playwright_404_escalates:
  assumes "browser e (chartUrl s) = PageLoaded (Some 404) mode doc"
  shows "scrapeAotyWithPlaywright e s = Some \<lparr>albums = [], success = False, notFound = Some True\<rparr>
       \<and> getChartData e s = (albums (scrapeAotyWithZenRows e s), [Tier1 s, Tier2 s])
       \<and> (\<forall>db param. trim param \<noteq> [] \<and> formatGenreSlug (unicodeLower e) (trim param) = s
              \<and> resolverCalls (snd (snd (chartRequest e db param))) \<noteq> [] \<longrightarrow>
            tier2Calls (snd (snd (chartRequest e db param))) = [s]
            \<and> (fst (chartRequest e db param) = NotFound (genreKeyOf e (trim param)))
                = (albums (scrapeAotyWithZenRows e s) = []))"
proof (intro conjI allI impI)
  from assms show pw: "scrapeAotyWithPlaywright e s =
      Some \<lparr>albums = [], success = False, notFound = Some True\<rparr>"
    by (simp add: scrapeAotyWithPlaywright_def)
  then show g: "getChartData e s = (albums (scrapeAotyWithZenRows e s), [Tier1 s, Tier2 s])"
    by (simp add: getChartData_def escalate_result)
  fix db param
  assume a: "trim param \<noteq> [] \<and> formatGenreSlug (unicodeLower e) (trim param) = s
              \<and> resolverCalls (snd (snd (chartRequest e db param))) \<noteq> []"
  then have "\<exists>c. chartRequest e db param = acquire e db s (genreKeyOf e (trim param)) c"
    by (auto simp: chartRequest_def Let_def split: option.splits if_splits)
  then obtain c where c: "chartRequest e db param = acquire e db s (genreKeyOf e (trim param)) c"
    by blast
  from c g show "tier2Calls (snd (snd (chartRequest e db param))) = [s]"
    by (simp add: acquire_def Let_def split: option.splits)
  from c g show "(fst (chartRequest e db param) = NotFound (genreKeyOf e (trim param)))
                = (albums (scrapeAotyWithZenRows e s) = [])"
    by (simp add: acquire_NotFound)
qed


subsection \<open>The example request\<close>

lemma example_trim: "trim (str ''Shoegaze'') = str ''Shoegaze''"
  by (simp add: string_eval)

lemma example_nonempty: "trim (str ''Shoegaze'') \<noteq> []"
  by (simp add: string_eval)

lemma example_store_lookup: "exampleStore row (str ''shoegaze'') = Some row"
  by (simp add: exampleStore_def)

lemma example_key: "genreKeyOf (exampleEnv run k p t) (str ''Shoegaze'') = str ''shoegaze''"
  by (simp add: genreKeyOf_def exampleEnv_def toLowerCase_def asciiLower_def string_eval)

lemma example_slug: "formatGenreSlug (unicodeLower (exampleEnv run k p t)) (str ''Shoegaze'') = str ''shoegaze''"
  by (simp add: formatGenreSlug_def exampleEnv_def toLowerCase_def asciiLower_def isSlugChar_def
      string_eval)

lemma example_env_fields:
  "now (exampleEnv run k p t) = t" "readFails (exampleEnv run k p t) = False"
  "browser (exampleEnv run k p t) u = run"
  by (simp_all add: exampleEnv_def)







theorem stale_row_left_untouched_witness:
  "fst (chartRequest (exampleEnv BrowserThrows None None 86400000) (exampleStore (exampleRow 0))
      (str ''Shoegaze'')) = NotFound (str ''shoegaze'')
   \<and> fst (snd (chartRequest (exampleEnv BrowserThrows None None 86400000)
        (exampleStore (exampleRow 0)) (str ''Shoegaze''))) = exampleStore (exampleRow 0)
   \<and> fst (snd (chartRequest (exampleEnv BrowserThrows None None 86400000)
        (exampleStore (exampleRow 0)) (str ''Shoegaze''))) (str ''shoegaze'') = Some (exampleRow 0)"
proof -
  have p: "trim (str ''Shoegaze'') \<noteq> []"
    by (simp add: string_eval)
  have s: "exampleStore (exampleRow 0)
      (genreKeyOf (exampleEnv BrowserThrows None None 86400000) (trim (str ''Shoegaze'')))
      = Some (exampleRow 0)"
    by (simp add: exampleStore_def example_trim example_key)
  have u: "updated_at (exampleRow 0) = Some 0"
    by (simp add: exampleRow_def)
  have t: "24 * (1000 * 60 * 60) \<le> now (exampleEnv BrowserThrows None None 86400000) - 0"
    by (simp add: example_env_fields)
  have g: "fst (getChartData (exampleEnv BrowserThrows None None 86400000)
      (formatGenreSlug (unicodeLower (exampleEnv BrowserThrows None None 86400000))
         (trim (str ''Shoegaze'')))) = []"
    by (simp add: getChartData_def escalate_result example_playwright_throws
        example_zenRows_skipped)
  from stale_row_left_untouched [where param = "str ''Shoegaze''"
      and e = "exampleEnv BrowserThrows None None 86400000"
      and db = "exampleStore (exampleRow 0)" and row = "exampleRow 0" and t = 0, OF p s u t g]
  show ?thesis
    by (simp add: example_trim example_key example_store_lookup)
qed

theorem playwright_404_escalates_witness:
  "scrapeAotyWithPlaywright
      (exampleEnv (PageLoaded (Some 404) NoQuirks (TextNode [])) (Some (str ''key''))
         (Some exampleMarkerPage) 0) (str ''shoegaze'')
     = Some \<lparr>albums = [], success = False, notFound = Some True\<rparr>
   \<and> getChartData
      (exampleEnv (PageLoaded (Some 404) NoQuirks (TextNode [])) (Some (str ''key''))
         (Some exampleMarkerPage) 0) (str ''shoegaze'')
     = ([exampleEntry], [Tier1 (str ''shoegaze''), Tier2 (str ''shoegaze'')])
   \<and> tier2Calls (snd (snd (chartRequest
        (exampleEnv (PageLoaded (Some 404) NoQuirks (TextNode [])) None None 0) (\<lambda>k. None)
        (str ''Shoegaze'')))) = [str ''shoegaze'']
   \<and> fst (chartRequest (exampleEnv (PageLoaded (Some 404) NoQuirks (TextNode [])) None None 0)
        (\<lambda>k. None) (str ''Shoegaze'')) = NotFound (str ''shoegaze'')"
proof -
  have h: "browser (exampleEnv (PageLoaded (Some 404) NoQuirks (TextNode [])) k p 0)
      (chartUrl (str ''shoegaze'')) = PageLoaded (Some 404) NoQuirks (TextNode [])" for k p
    by (simp add: example_env_fields)
  from playwright_404_escalates [OF h, of "Some (str ''key'')" "Some exampleMarkerPage"]
  have 1: "scrapeAotyWithPlaywright
      (exampleEnv (PageLoaded (Some 404) NoQuirks (TextNode [])) (Some (str ''key''))
         (Some exampleMarkerPage) 0) (str ''shoegaze'')
     = Some \<lparr>albums = [], success = False, notFound = Some True\<rparr>
   \<and> getChartData
      (exampleEnv (PageLoaded (Some 404) NoQuirks (TextNode [])) (Some (str ''key''))
         (Some exampleMarkerPage) 0) (str ''shoegaze'')
     = ([exampleEntry], [Tier1 (str ''shoegaze''), Tier2 (str ''shoegaze'')])"
    by (simp add: example_zenRows_page)
  have r: "resolverCalls (snd (snd (chartRequest
        (exampleEnv (PageLoaded (Some 404) NoQuirks (TextNode [])) None None 0) (\<lambda>k. None)
        (str ''Shoegaze'')))) \<noteq> []"
    by (simp add: chartRequest_def Let_def example_nonempty selectRow_def
        acquire_resolverCalls)
  have p: "trim (str ''Shoegaze'') \<noteq> []"
    by (rule example_nonempty)
  from playwright_404_escalates [OF h, of None None, THEN conjunct2, THEN conjunct2,
      rule_format, of "str ''Shoegaze''" "\<lambda>k. None"] r p
  have 2: "tier2Calls (snd (snd (chartRequest
        (exampleEnv (PageLoaded (Some 404) NoQuirks (TextNode [])) None None 0) (\<lambda>k. None)
        (str ''Shoegaze'')))) = [str ''shoegaze'']
   \<and> fst (chartRequest (exampleEnv (PageLoaded (Some 404) NoQuirks (TextNode [])) None None 0)
        (\<lambda>k. None) (str ''Shoegaze'')) = NotFound (str ''shoegaze'')"
    by (simp add: example_trim example_key example_slug example_zenRows_skipped)
  from 1 2 show ?thesis by simp
qed

subsection \<open>The key of the cache and the slug of the resolver\<close>

lemma chartRequest_cacheKeys:
  "list_all (\<lambda>k. k = genreKeyOf e (trim param)) (cacheKeys (snd (snd (chartRequest e db param))))"
  by (simp add: chartRequest_def Let_def acquire_cacheKeys split: option.splits)

lemma chartRequest_resolverCalls:
  "list_all (\<lambda>s. s = formatGenreSlug (unicodeLower e) (trim param))
     (resolverCalls (snd (snd (chartRequest e db param))))"
  by (simp add: chartRequest_def Let_def acquire_resolverCalls split: option.splits)

lemma chartRequest_other_keys:
  "k \<noteq> genreKeyOf e (trim param) \<Longrightarrow> fst (snd (chartRequest e db param)) k = db k"
  by (simp add: chartRequest_def Let_def acquire_other_keys split: option.splits)

lemma genreKey_of_slug:
  assumes "list_all isSlugChar s"
  shows "trim (toLowerCase u s) = s"
proof -
  from assms have "list_all (\<lambda>c. \<not> isWhiteSpace c) s"
    by (induction s) (auto simp: slug_char_not_space)
  with assms show ?thesis
    by (simp add: toLowerCase_slug trim_no_space)
qed

lemma example_synth_pop_trace:
  "snd (snd (chartRequest (exampleEnv (PageLoaded (Some 200) NoQuirks exampleMarkerPage) None None 0)
      (\<lambda>k. None) (str ''Synth Pop''))) =
     [CacheSelect (str ''synth pop''), Tier1 (str ''synth-pop''), CacheInsert (str ''synth pop'')]"
proof -
  have t: "trim (str ''Synth Pop'') = str ''Synth Pop''" "str ''Synth Pop'' \<noteq> []"
    by (simp_all add: string_eval)
  have k: "genreKeyOf (exampleEnv run k p t) (str ''Synth Pop'') = str ''synth pop''" for run k p t
    by (simp add: genreKeyOf_def exampleEnv_def toLowerCase_def asciiLower_def string_eval)
  have s: "formatGenreSlug (unicodeLower (exampleEnv run k p t)) (str ''Synth Pop'')
      = str ''synth-pop''" for run k p t
    by (simp add: formatGenreSlug_def exampleEnv_def toLowerCase_def asciiLower_def
        isSlugChar_def string_eval)
  have g: "getChartData (exampleEnv (PageLoaded (Some 200) NoQuirks exampleMarkerPage) None None 0)
      (str ''synth-pop'') = ([exampleEntry], [Tier1 (str ''synth-pop'')])"
    by (simp add: getChartData_def example_playwright_page)
  show ?thesis
    by (simp add: chartRequest_def Let_def t k s g selectRow_def acquire_def)
qed

text \<open>
  C1 as stated fails: for the genre \<^verbatim>\<open>"Synth Pop"\<close> the cache is read and written
  under \<^verbatim>\<open>"synth pop"\<close>, while \<open>formatGenreSlug\<close> gives \<^verbatim>\<open>"synth-pop"\<close>, which
  only the resolver receives.
\<close>

theorem cache_key_is_not_the_slug:
  "cacheKeys (snd (snd (chartRequest
      (exampleEnv (PageLoaded (Some 200) NoQuirks exampleMarkerPage) None None 0) (\<lambda>k. None)
      (str ''Synth Pop'')))) = [str ''synth pop'', str ''synth pop'']
   \<and> formatGenreSlug (\<lambda>s. s) (str ''Synth Pop'') = str ''synth-pop''
   \<and> str ''synth pop'' \<noteq> str ''synth-pop''"
proof (intro conjI)
  show "cacheKeys (snd (snd (chartRequest
      (exampleEnv (PageLoaded (Some 200) NoQuirks exampleMarkerPage) None None 0) (\<lambda>k. None)
      (str ''Synth Pop'')))) = [str ''synth pop'', str ''synth pop'']"
    by (simp add: example_synth_pop_trace)
  show "formatGenreSlug (\<lambda>s. s) (str ''Synth Pop'') = str ''synth-pop''"
    by (simp add: formatGenreSlug_def toLowerCase_def asciiLower_def isSlugChar_def string_eval)
  show "str ''synth pop'' \<noteq> str ''synth-pop''"
    by (simp add: str_def)
qed

text \<open>
  C1, amended. Every read and write of the cache in a chart request uses the key
  \<open>genreKey\<close>, the trimmed request parameter in lower case and trimmed again, and no row
  under another key changes; \<open>formatGenreSlug\<close> of the trimmed parameter is what the
  resolver is called with. The two agree when the trimmed parameter is made of
  \<^verbatim>\<open>[a-z0-9-]\<close> only.
\<close>

theorem cache_key_is_genreKey:
  "list_all (\<lambda>k. k = trim (toLowerCase (unicodeLower e) (trim param)))
     (cacheKeys (snd (snd (chartRequest e db param))))
   \<and> (\<forall>k. k \<noteq> trim (toLowerCase (unicodeLower e) (trim param)) \<longrightarrow>
         fst (snd (chartRequest e db param)) k = db k)
   \<and> list_all (\<lambda>s. s = formatGenreSlug (unicodeLower e) (trim param))
       (resolverCalls (snd (snd (chartRequest e db param))))
   \<and> (list_all isSlugChar (trim param) \<longrightarrow>
        trim (toLowerCase (unicodeLower e) (trim param))
          = formatGenreSlug (unicodeLower e) (trim param))"
proof (intro conjI allI impI)
  show "list_all (\<lambda>k. k = trim (toLowerCase (unicodeLower e) (trim param)))
     (cacheKeys (snd (snd (chartRequest e db param))))"
    using chartRequest_cacheKeys [of e param db] by (simp add: genreKeyOf_def)
  show "list_all (\<lambda>s. s = formatGenreSlug (unicodeLower e) (trim param))
       (resolverCalls (snd (snd (chartRequest e db param))))"
    by (rule chartRequest_resolverCalls)
next
  fix k assume "k \<noteq> trim (toLowerCase (unicodeLower e) (trim param))"
  then show "fst (snd (chartRequest e db param)) k = db k"
    using chartRequest_other_keys [of k e param db] by (simp add: genreKeyOf_def)
next
  assume "list_all isSlugChar (trim param)"
  then show "trim (toLowerCase (unicodeLower e) (trim param))
          = formatGenreSlug (unicodeLower e) (trim param)"
    by (simp add: genreKey_of_slug slug_is_fixed_point)
qed

theorem cache_key_is_genreKey_witness:
  "cacheKeys (snd (snd (chartRequest
      (exampleEnv (PageLoaded (Some 200) NoQuirks exampleMarkerPage) None None 0) (\<lambda>k. None)
      (str ''Synth Pop'')))) = [str ''synth pop'', str ''synth pop'']
   \<and> fst (snd (chartRequest
      (exampleEnv (PageLoaded (Some 200) NoQuirks exampleMarkerPage) None None 0) (\<lambda>k. None)
      (str ''Synth Pop''))) (str ''synth-pop'') = None
   \<and> resolverCalls (snd (snd (chartRequest
      (exampleEnv (PageLoaded (Some 200) NoQuirks exampleMarkerPage) None None 0) (\<lambda>k. None)
      (str ''Synth Pop'')))) = [str ''synth-pop'']
   \<and> list_all isSlugChar (trim (str ''shoegaze''))
   \<and> trim (toLowerCase (\<lambda>s. s) (trim (str ''shoegaze'')))
       = formatGenreSlug (\<lambda>s. s) (trim (str ''shoegaze''))"
proof -
  have t: "trim (str ''Synth Pop'') = str ''Synth Pop''"
    by (simp add: string_eval)
  have k: "trim (toLowerCase (\<lambda>s. s) (str ''Synth Pop'')) = str ''synth pop''"
    by (simp add: toLowerCase_def asciiLower_def string_eval)
  have d: "str ''synth-pop'' \<noteq> str ''synth pop''"
    by (simp add: str_def)
  have u: "unicodeLower (exampleEnv run k p t) = (\<lambda>s. s)" for run k p t
    by (simp add: exampleEnv_def)
  have a: "list_all isSlugChar (trim (str ''shoegaze''))"
    by (simp add: isSlugChar_def string_eval)
  note w = cache_key_is_genreKey [where param = "str ''Synth Pop''" and db = "\<lambda>k. None"
      and e = "exampleEnv (PageLoaded (Some 200) NoQuirks exampleMarkerPage) None None 0"]
  from w [THEN conjunct2, THEN conjunct1, rule_format, of "str ''synth-pop''"] d
  have 2: "fst (snd (chartRequest
      (exampleEnv (PageLoaded (Some 200) NoQuirks exampleMarkerPage) None None 0) (\<lambda>k. None)
      (str ''Synth Pop''))) (str ''synth-pop'') = None"
    by (simp add: t k u)
  from cache_key_is_genreKey [where param = "str ''shoegaze''" and db = "\<lambda>k. None"
      and e = "exampleEnv BrowserThrows None None 0", THEN conjunct2, THEN conjunct2,
      THEN conjunct2] a
  have 4: "trim (toLowerCase (\<lambda>s. s) (trim (str ''shoegaze'')))
       = formatGenreSlug (\<lambda>s. s) (trim (str ''shoegaze''))"
    by (simp add: u)
  from 2 4 a show ?thesis
    by (simp add: example_synth_pop_trace)
qed

section \<open>Album-page extraction: properties\<close>

lemmas track_eval = isDigit_def digitsValue_def parseInt_def stripDuration_def
  querySelectorAllIn_def tableCells_def parsedRows_def cell_def ratedRow_def withRating_def
  tableTracks_def albumPageExtract_def tableElement_def

lemma example_table_cells: "tableCells (tableElement exampleTrackTable) = exampleTrackTable"
  by (simp add: exampleTrackTable_def tableElement_def tableCells_def querySelectorAllIn_def
      tagIs_def string_eval)

lemma example_table_tracks:
  "tableTracks exampleTrackTable = Tracks [str ''Void'', str ''Intro'']"
  by (simp add: exampleTrackTable_def track_eval string_eval Let_def)


lemma example_page_extract:
  "albumPageExtract (pageOf [tableElement exampleTrackTable]) = [str ''Void'', str ''Intro'']"
  by (simp add: pageOf_def exampleTrackTable_def track_eval querySelectorAll_def tagIs_def
      string_eval Let_def)

text \<open>
  C7. For the table with the rows \<^verbatim>\<open>["1","Intro 1:02","80"]\<close>,
  \<^verbatim>\<open>["2","Void 3:45","95"]\<close> and \<^verbatim>\<open>["3","<em dash>","notanumber"]\<close> the extraction
  returns \<^verbatim>\<open>["Void","Intro"]\<close>: the durations are gone from the names, the higher
  rating comes first, and the third row, whose rating does not parse, is dropped.
\<close>

theorem track_table_example:
  "tableCells (tableElement exampleTrackTable) =
     [[str ''1'', str ''Intro 1:02'', str ''80''],
      [str ''2'', str ''Void 3:45'', str ''95''],
      [str ''3'', [8212], str ''notanumber'']]
   \<and> albumPageExtract (pageOf [tableElement exampleTrackTable]) = [str ''Void'', str ''Intro'']
   \<and> withRating (parsedRows exampleTrackTable) = [(str ''Intro'', 80), (str ''Void'', 95)]
   \<and> parseInt (str ''notanumber'') = None
   \<and> ratedRow [str ''3'', [8212], str ''notanumber''] = []"
proof (intro conjI)
  show "tableCells (tableElement exampleTrackTable) =
     [[str ''1'', str ''Intro 1:02'', str ''80''],
      [str ''2'', str ''Void 3:45'', str ''95''],
      [str ''3'', [8212], str ''notanumber'']]"
    using example_table_cells by (simp add: exampleTrackTable_def)
  show "albumPageExtract (pageOf [tableElement exampleTrackTable]) = [str ''Void'', str ''Intro'']"
    by (rule example_page_extract)
  show "withRating (parsedRows exampleTrackTable) = [(str ''Intro'', 80), (str ''Void'', 95)]"
    by (simp add: exampleTrackTable_def track_eval string_eval Let_def)
  show "parseInt (str ''notanumber'') = None"
    by (simp add: track_eval string_eval Let_def)
  show "ratedRow [str ''3'', [8212], str ''notanumber''] = []"
    by (simp add: track_eval string_eval Let_def)
qed

subsection \<open>Which tables are scanned\<close>

lemma cell_update_first: "i \<noteq> 0 \<Longrightarrow> cell (row[0 := x]) i = cell row i"
  by (simp add: cell_def)

lemma ratedRow_update_first: "ratedRow (row[0 := x]) = ratedRow row"
  by (simp add: ratedRow_def cell_update_first split: option.splits)

lemma parsedRows_update_first:
  "parsedRows (map (\<lambda>row. row[0 := f row]) cells) = map (\<lambda>row. row[0 := f row]) (parsedRows cells)"
  by (induction cells) (auto simp: parsedRows_def)

lemma withRating_update_first:
  "withRating (map (\<lambda>row. row[0 := f row]) rows) = withRating rows"
  by (induction rows) (auto simp: withRating_def ratedRow_update_first)

lemma tableTracks_update_first:
  "tableTracks (map (\<lambda>row. row[0 := f row]) cells) = tableTracks cells"
  by (simp add: tableTracks_def parsedRows_update_first withRating_update_first Let_def)

lemma ratedRow_usable: "length (ratedRow row) \<le> (if specUsable row then 1 else 0)"
  by (auto simp: ratedRow_def specUsable_def Let_def split: option.splits)

lemma withRating_usable: "length (withRating rows) \<le> length (filter specUsable rows)"
proof (induction rows)
  case Nil
  then show ?case by (simp add: withRating_def)
next
  case (Cons row rows)
  have "length (withRating (row # rows)) = length (ratedRow row) + length (withRating rows)"
    by (simp add: withRating_def)
  with Cons ratedRow_usable [of row] show ?case
    by (auto split: if_splits)
qed

lemma tableTracks_few_usable:
  "length (filter specUsable (parsedRows cells)) < 2 \<Longrightarrow> tableTracks cells \<noteq> Tracks names"
  using withRating_usable [of "parsedRows cells"]
  by (auto simp: tableTracks_def Let_def)

lemma firstTracks_few_usable:
  "list_all (\<lambda>cells. length (filter specUsable (parsedRows cells)) < 2) tables \<Longrightarrow>
   firstTracks tables = []"
proof (induction tables)
  case Nil
  then show ?case by simp
next
  case (Cons cells tables)
  then have "tableTracks cells \<noteq> Tracks names" for names
    by (simp add: tableTracks_few_usable)
  with Cons show ?case
    by (cases "tableTracks cells") auto
qed

text \<open>
  C6 as stated fails: a table whose first cell is \<^verbatim>\<open>"A"\<close>, not a number, is scanned and
  its tracks are returned.
\<close>

theorem unnumbered_table_is_scanned:
  "tableCells (tableElement exampleUnnumberedTable) = exampleUnnumberedTable
   \<and> tableTracks exampleUnnumberedTable = Tracks [str ''Void'', str ''Intro'']
   \<and> albumPageExtract (pageOf [tableElement exampleUnnumberedTable]) = [str ''Void'', str ''Intro'']
   \<and> \<not> specCandidate exampleUnnumberedTable"
proof (intro conjI)
  show "tableCells (tableElement exampleUnnumberedTable) = exampleUnnumberedTable"
    by (simp add: exampleUnnumberedTable_def tableElement_def tableCells_def
        querySelectorAllIn_def tagIs_def string_eval)
  show "tableTracks exampleUnnumberedTable = Tracks [str ''Void'', str ''Intro'']"
    by (simp add: exampleUnnumberedTable_def track_eval string_eval Let_def)
  show "albumPageExtract (pageOf [tableElement exampleUnnumberedTable])
      = [str ''Void'', str ''Intro'']"
    by (simp add: pageOf_def exampleUnnumberedTable_def track_eval querySelectorAll_def
        tagIs_def string_eval Let_def)
  show "\<not> specCandidate exampleUnnumberedTable"
    by (simp add: specCandidate_def purelyNumeric_def exampleUnnumberedTable_def parsedRows_def
        cell_def isDigit_def str_def)
qed

text \<open>
  C6, amended. A table is scanned for ratings exactly when at least two of its rows have
  at least three cells; what the first cell of a row holds plays no part. The extraction
  returns the empty list whenever no table has two rows, of three cells or more, whose
  third cell parses as a rating from 0 to 100.
\<close>

theorem track_table_candidates:
  "(tableTracks cells \<noteq> Skipped) = (2 \<le> length (filter (\<lambda>row. 3 \<le> length row) cells))
   \<and> tableTracks (map (\<lambda>row. row[0 := f row]) cells) = tableTracks cells
   \<and> (list_all (\<lambda>t. length (filter specUsable (parsedRows (tableCells (fst t)))) < 2)
         (querySelectorAll (tagIs (str ''table'')) doc) \<longrightarrow>
       albumPageExtract doc = [])"
proof (intro conjI impI)
  show "(tableTracks cells \<noteq> Skipped) = (2 \<le> length (filter (\<lambda>row. 3 \<le> length row) cells))"
    by (auto simp: tableTracks_def parsedRows_def Let_def)
  show "tableTracks (map (\<lambda>row. row[0 := f row]) cells) = tableTracks cells"
    by (rule tableTracks_update_first)
  assume "list_all (\<lambda>t. length (filter specUsable (parsedRows (tableCells (fst t)))) < 2)
         (querySelectorAll (tagIs (str ''table'')) doc)"
  then have "list_all (\<lambda>cells. length (filter specUsable (parsedRows cells)) < 2)
      (map (\<lambda>t. tableCells (fst t)) (querySelectorAll (tagIs (str ''table'')) doc))"
    by (simp add: list_all_iff)
  then show "albumPageExtract doc = []"
    by (simp add: albumPageExtract_def firstTracks_few_usable)
qed



lemma example_unrated_cells:
  "map (\<lambda>t. tableCells (fst t))
     (querySelectorAll (tagIs (str ''table'')) (pageOf [tableElement exampleUnratedTable]))
   = [exampleUnratedTable]"
  by (simp add: pageOf_def exampleUnratedTable_def tableElement_def tableCells_def
      querySelectorAllIn_def querySelectorAll_def tagIs_def string_eval)

lemma example_unrated_usable:
  "length (filter specUsable (parsedRows exampleUnratedTable)) = 1"
  by (simp add: exampleUnratedTable_def parsedRows_def specUsable_def cell_def parseInt_def
      isDigit_def digitsValue_def string_eval Let_def)
theorem track_table_candidates_witness:
  "list_all (\<lambda>t. length (filter specUsable (parsedRows (tableCells (fst t)))) < 2)
     (querySelectorAll (tagIs (str ''table'')) (pageOf [tableElement exampleUnratedTable]))
   \<and> albumPageExtract (pageOf [tableElement exampleUnratedTable]) = []
   \<and> tableTracks exampleUnratedTable = TooFewRated
   \<and> tableTracks (map (\<lambda>row. row[0 := str ''A'']) exampleTrackTable)
       = Tracks [str ''Void'', str ''Intro'']"
proof -
  have h: "list_all (\<lambda>t. length (filter specUsable (parsedRows (tableCells (fst t)))) < 2)
     (querySelectorAll (tagIs (str ''table'')) (pageOf [tableElement exampleUnratedTable]))"
  proof -
    have "list_all (\<lambda>cells. length (filter specUsable (parsedRows cells)) < 2)
        (map (\<lambda>t. tableCells (fst t))
          (querySelectorAll (tagIs (str ''table'')) (pageOf [tableElement exampleUnratedTable])))"
      by (simp add: example_unrated_cells example_unrated_usable)
    then show ?thesis
      by (simp only: list.pred_map o_def)
  qed
  note w = track_table_candidates [where cells = exampleTrackTable and f = "\<lambda>row. str ''A''"
      and doc = "pageOf [tableElement exampleUnratedTable]"]
  from w [THEN conjunct2, THEN conjunct2, THEN mp, OF h]
  have 1: "albumPageExtract (pageOf [tableElement exampleUnratedTable]) = []" .
  have 2: "tableTracks exampleUnratedTable = TooFewRated"
    by (simp add: exampleUnratedTable_def track_eval string_eval Let_def)
  from w [THEN conjunct2, THEN conjunct1]
  have 3: "tableTracks (map (\<lambda>row. row[0 := str ''A'']) exampleTrackTable)
       = Tracks [str ''Void'', str ''Intro'']"
    by (simp only: example_table_tracks)
  from h 1 2 3 show ?thesis by (intro conjI)
qed

section \<open>Cross-catalog track selector: properties\<close>
















text \<open>The selection of one album, in terms of the list it has before the last padding.\<close>

definition urisBeforePadding ::
  "(jstring \<Rightarrow> jstring) \<Rightarrow> (jstring \<Rightarrow> browser_run)
     \<Rightarrow> (jstring list \<Rightarrow> track_detail option list option)
     \<Rightarrow> album_entry \<Rightarrow> track list \<Rightarrow> jstring list" where
  "urisBeforePadding u br getTracks item items =
     (if \<not> isTruthy (albumUrl item) \<or> scrapeAotyAlbumTracks br (albumUrl item) = []
      then getTopTrackUrisByPopularity getTracks items TRACKS_PER_ALBUM
      else matchRated u (newMap (filter (\<lambda>p. fst p \<noteq> [])
             (map (\<lambda>t. (norm u (trackName t), uri t)) items)))
             (scrapeAotyAlbumTracks br (albumUrl item)))"




















section \<open>The two chart-page extractions compared\<close>

lemma playwright_anchor_page:
  "playwrightExtract TOP_N mode exampleAnchorPage =
     [\<lparr>rank = 1, artist = str ''Slowdive'', album = str ''Souvlaki'',
       albumUrl = Some (str ''/album/2-y.php'')\<rparr>]"
  by (cases mode)
    (simp_all add: exampleAnchorPage_def pageOf_def string_eval dom_eval extract_eval Let_def)

lemma zenRows_anchor_page:
  "zenRowsExtract exampleAnchorPage =
     [\<lparr>rank = 2, artist = str ''Slowdive'', album = str ''Souvlaki'',
       albumUrl = Some (str ''/album/2-y.php'')\<rparr>]"
  by (simp add: exampleAnchorPage_def pageOf_def string_eval dom_eval extract_eval Let_def)

lemma playwright_list_page:
  "playwrightExtract TOP_N mode exampleListPage =
     [\<lparr>rank = 1, artist = str ''Slowdive'', album = str ''Souvlaki'', albumUrl = None\<rparr>]"
  by (cases mode)
    (simp_all add: exampleListPage_def pageOf_def string_eval dom_eval extract_eval Let_def)

lemma zenRows_list_page:
  "zenRowsExtract exampleListPage =
     [\<lparr>rank = 1, artist = str ''Slowdive'', album = str ''Souvlaki'',
       albumUrl = Some (str ''/album/2-y.php'')\<rparr>]"
  by (simp add: exampleListPage_def pageOf_def string_eval dom_eval extract_eval Let_def)

text \<open>
  The two class tests at work: upper case matches in the browser in quirks mode only, and
  a no-break space separates two tokens for the static parser only.
\<close>

lemma class_tests_differ:
  "domHasClass Quirks (str ''albumTitle'') (exampleClassElement (str ''ALBUMTITLE''))
   \<and> \<not> domHasClass NoQuirks (str ''albumTitle'') (exampleClassElement (str ''ALBUMTITLE''))
   \<and> \<not> cheerioHasClass (str ''albumTitle'') (exampleClassElement (str ''ALBUMTITLE''))
   \<and> cheerioHasClass (str ''albumTitle'') (exampleClassElement (str ''albumTitle'' @ [160] @ str ''x''))
   \<and> \<not> domHasClass NoQuirks (str ''albumTitle'')
         (exampleClassElement (str ''albumTitle'' @ [160] @ str ''x''))
   \<and> domHasClass NoQuirks (str ''albumTitle'') (exampleClassElement (str ''row albumTitle''))
   \<and> cheerioHasClass (str ''albumTitle'') (exampleClassElement (str ''row albumTitle''))"
  by (simp add: domHasClass_def cheerioHasClass_def exampleClassElement_def isAsciiSpace_def
      isWhiteSpace_def asciiLower_def str_def)

text \<open>
  C9. The claim is that on every document the in-page function of the Playwright tier
  and the static parse of the ZenRows tier give the same album list. The code does not
  do that, in either path and whatever the mode of the document. On the anchor path, a
  page whose first album anchor has no \<^verbatim>\<open>" - "\<close> gives the second anchor rank 1 in
  the Playwright tier, which numbers the anchors it has kept, and rank 2 in the ZenRows
  tier, which numbers (and caps) all anchors. On the marker path, a list item that holds
  an album link beside its title marker gives no \<open>albumUrl\<close> in the Playwright tier,
  whose \<^verbatim>\<open>closest\<close> stops at the title marker itself because of
  \<^verbatim>\<open>[class*="album"]\<close>, and the link's target in the ZenRows tier.
\<close>

theorem tiers_disagree:
  "playwrightExtract TOP_N mode exampleAnchorPage =
     [\<lparr>rank = 1, artist = str ''Slowdive'', album = str ''Souvlaki'',
       albumUrl = Some (str ''/album/2-y.php'')\<rparr>]
   \<and> zenRowsExtract exampleAnchorPage =
     [\<lparr>rank = 2, artist = str ''Slowdive'', album = str ''Souvlaki'',
       albumUrl = Some (str ''/album/2-y.php'')\<rparr>]
   \<and> playwrightExtract TOP_N mode exampleListPage =
     [\<lparr>rank = 1, artist = str ''Slowdive'', album = str ''Souvlaki'', albumUrl = None\<rparr>]
   \<and> zenRowsExtract exampleListPage =
     [\<lparr>rank = 1, artist = str ''Slowdive'', album = str ''Souvlaki'',
       albumUrl = Some (str ''/album/2-y.php'')\<rparr>]
   \<and> playwrightExtract TOP_N mode exampleAnchorPage \<noteq> zenRowsExtract exampleAnchorPage
   \<and> playwrightExtract TOP_N mode exampleListPage \<noteq> zenRowsExtract exampleListPage"
  by (simp add: playwright_anchor_page zenRows_anchor_page playwright_list_page
      zenRows_list_page)

text \<open>The same two pages in a document in quirks mode.\<close>

theorem tiers_disagree_witness:
  "playwrightExtract TOP_N Quirks exampleAnchorPage \<noteq> zenRowsExtract exampleAnchorPage
   \<and> playwrightExtract TOP_N Quirks exampleListPage \<noteq> zenRowsExtract exampleListPage"
  using tiers_disagree [of Quirks] by blast

end
